theory Spec2Isabelle
  imports Main
begin

section \<open>The router outlet of \<^verbatim>\<open>packages/router/src/directives/router_outlet.ts\<close>\<close>

text \<open>
  A shallow embedding of the classes \<^verbatim>\<open>RouterOutlet\<close>, \<^verbatim>\<open>OutletInjector\<close> and
  \<^verbatim>\<open>EmptyOutletComponent\<close>. Objects are values that carry their identity (a \<open>ref\<close>);
  the objects an outlet reaches through its fields form a tree (an outlet holds a
  component handle, the handle an instance, a placeholder instance its nested outlet),
  so the object graph is a mutually recursive datatype and the getters that walk it are
  structurally recursive. Every method returns a result (\<open>Inl\<close> a thrown error) together
  with the object as the method left it, also when it throws: a throw does not undo the
  assignments made before it.
\<close>

subsection \<open>Values consumed from the rest of the router and from the framework\<close>

type_synonym ref = nat
type_synonym ViewRef = nat
type_synonym any = nat

datatype error = Error string | TypeError string

abbreviation NotActivatedError :: error where
  "NotActivatedError \<equiv> Error ''Outlet is not activated''"

abbreviation AlreadyActivatedError :: error where
  "AlreadyActivatedError \<equiv> Error ''Cannot activate an already activated outlet''"

type_synonym 'a result = "error + 'a"

text \<open>
  Modelled from the spec: the view descriptor of a route (a component class: the
  placeholder class of this file, the marker for no explicit view, or any other class), and
  the route record, an external entity that carries a view descriptor to instantiate and a
  data payload. \<open>Route_component\<close> is \<^verbatim>\<open>Route.component\<close>, \<open>None\<close> when it is \<^verbatim>\<open>undefined\<close>;
  \<open>routeConfig\<close> may be \<^verbatim>\<open>null\<close>; \<open>futureSnapshot\<close> is \<^verbatim>\<open>_futureSnapshot\<close>; \<open>route_ref\<close> is the
  identity of the record.
\<close>

datatype Type = EmptyOutletComponent_Type | Component_Type string

type_synonym Data = "string \<rightharpoonup> string"

record Route =
  Route_component :: "Type option"

record ActivatedRouteSnapshot =
  data :: Data
  routeConfig :: "Route option"

record ActivatedRoute =
  route_ref :: ref
  snapshot :: ActivatedRouteSnapshot
  futureSnapshot :: ActivatedRouteSnapshot

text \<open>
  The two closures that \<^verbatim>\<open>activateWith\<close> subscribes, with the outlet they captured as
  \<^verbatim>\<open>this\<close>: \<^verbatim>\<open>(ev) => this.activateEvents.emit(ev)\<close> and
  \<^verbatim>\<open>(ev) => this.deactivateEvents.emit(ev)\<close>.
\<close>

datatype callback = EmitActivate ref | EmitDeactivate ref

text \<open>
  Modelled from the spec: the event emitter of the framework (notification channels with
  a one-to-many observer discipline, emission in subscription order). \<open>emitted\<close> is the
  trace of the values passed to \<^verbatim>\<open>emit\<close> (the identity of the emitted object, \<open>None\<close>
  for \<^verbatim>\<open>null\<close>); \<open>observers\<close> are the subscriptions made in this file, each under its key.
\<close>

record EventEmitter =
  emitted :: "ref option list"
  observers :: "(nat \<times> callback) list"

text \<open>
  Modelled from the spec: unsubscription, the only cancellation mechanism. A subscription
  (the \<^verbatim>\<open>sink\<close> of line 181) is the list of the subscriptions added to it, each the key of
  an observer on one of the placeholder's two channels; the subject \<^verbatim>\<open>destroy$\<close> holds the
  sinks to unsubscribe when it fires.
\<close>

datatype teardown = UnsubscribeActivate nat | UnsubscribeDeactivate nat

type_synonym Subscription = "teardown list"

record Subject =
  subscribers :: "Subscription list"
  isStopped :: bool

text \<open>
  Modelled from the spec: the view-instantiation primitive. A factory is what creating
  from it does: it throws, or it yields a new object of class \<open>componentType\<close> (its
  identity) and a new host view.
\<close>

record ComponentFactory =
  componentType :: Type
  create :: "(ref \<times> ViewRef) result"

type_synonym ComponentFactoryResolver = "Type option \<Rightarrow> ComponentFactory result"

datatype token = ActivatedRoute_token | ChildrenOutletContexts_token | Other_token string

text \<open>Modelled from the spec: the resolver primitive \<^verbatim>\<open>resolve(token, defaultIfMissing?)\<close>.\<close>

type_synonym Injector = "token \<Rightarrow> any option \<Rightarrow> any result"

text \<open>
  Modelled from the spec: the positional container of views. \<open>destroyed\<close> is the trace of
  the host views on which \<^verbatim>\<open>destroy()\<close> was called.
\<close>

record ViewContainerRef =
  views :: "ViewRef list"
  destroyed :: "ViewRef list"
  loc_injector :: Injector

text \<open>Modelled from the spec: the signal that marks the view dirty, counted.\<close>

record ChangeDetectorRef =
  markedForCheck :: nat

subsection \<open>The object graph\<close>

text \<open>
  Modelled from the spec: the types \<open>ChildrenOutletContexts\<close> and \<open>OutletContext\<close> (the
  context registry, a mapping from outlet name to the record
  \<open>{route, resolver, attachRef, outlet-instance}\<close> with the registry scope nested under that
  name) and \<open>ComponentRef\<close> (the view handle, with the produced object \<open>c_instance\<close>, its
  host view, and the dependency resolver it was created with). The types \<open>RouterOutlet\<close>,
  \<open>EmptyOutletComponent\<close> and \<open>OutletInjector\<close> are the classes of the source, field by field:
  \<open>self\<close> is the identity of the object (\<^verbatim>\<open>this\<close>), \<open>u_activatedRoute\<close> the private field
  \<^verbatim>\<open>_activatedRoute\<close>, \<open>destroy\<close> the subject \<^verbatim>\<open>destroy$\<close>, and \<open>outlet = None\<close> the view child
  that is still \<^verbatim>\<open>undefined\<close>. An \<open>Instance\<close> is the object a view was created for: a
  placeholder, or an object of any other class, of which only the identity matters. The
  collaborators that the constructor receives are fields; an operation returns the outlet
  with the collaborators as it left them.
\<close>

datatype RouterOutlet = RouterOutlet
    (self: ref)
    (activated: "ComponentRef option")
    (u_activatedRoute: "ActivatedRoute option")
    (name: string)
    (activateEvents: EventEmitter)
    (deactivateEvents: EventEmitter)
    (parentContexts: ChildrenOutletContexts)
    (location: ViewContainerRef)
    (resolver: ComponentFactoryResolver)
    (changeDetector: ChangeDetectorRef)
and ComponentRef = ComponentRef
    (c_instance: Instance)
    (hostView: ViewRef)
    (injector: OutletInjector)
and Instance = Component ref | Empty EmptyOutletComponent
and EmptyOutletComponent = EmptyOutletComponent
    (e_self: ref)
    (e_activateEvents: EventEmitter)
    (e_deactivateEvents: EventEmitter)
    (outlet: "RouterOutlet option")
    (destroy: Subject)
and OutletInjector = OutletInjector
    (route: ActivatedRoute)
    (childContexts: ChildrenOutletContexts)
    (parent: Injector)
and ChildrenOutletContexts = ChildrenOutletContexts
    (contexts: "(string \<times> OutletContext) list")
and OutletContext = OutletContext
    (c_outlet: "ref option")
    (c_route: "ActivatedRoute option")
    (c_resolver: "ComponentFactoryResolver option")
    (children: ChildrenOutletContexts)
    (attachRef: "ComponentRef option")

text \<open>Assignments to the fields of an outlet.\<close>

definition set_activated :: "ComponentRef option \<Rightarrow> RouterOutlet \<Rightarrow> RouterOutlet" where
  "set_activated x this = RouterOutlet (self this) x (u_activatedRoute this) (name this)
     (activateEvents this) (deactivateEvents this) (parentContexts this) (location this)
     (resolver this) (changeDetector this)"

definition set_u_activatedRoute :: "ActivatedRoute option \<Rightarrow> RouterOutlet \<Rightarrow> RouterOutlet" where
  "set_u_activatedRoute x this = RouterOutlet (self this) (activated this) x (name this)
     (activateEvents this) (deactivateEvents this) (parentContexts this) (location this)
     (resolver this) (changeDetector this)"

definition set_activateEvents :: "EventEmitter \<Rightarrow> RouterOutlet \<Rightarrow> RouterOutlet" where
  "set_activateEvents x this = RouterOutlet (self this) (activated this) (u_activatedRoute this)
     (name this) x (deactivateEvents this) (parentContexts this) (location this)
     (resolver this) (changeDetector this)"

definition set_deactivateEvents :: "EventEmitter \<Rightarrow> RouterOutlet \<Rightarrow> RouterOutlet" where
  "set_deactivateEvents x this = RouterOutlet (self this) (activated this) (u_activatedRoute this)
     (name this) (activateEvents this) x (parentContexts this) (location this)
     (resolver this) (changeDetector this)"

definition set_parentContexts :: "ChildrenOutletContexts \<Rightarrow> RouterOutlet \<Rightarrow> RouterOutlet" where
  "set_parentContexts x this = RouterOutlet (self this) (activated this) (u_activatedRoute this)
     (name this) (activateEvents this) (deactivateEvents this) x (location this)
     (resolver this) (changeDetector this)"

definition set_location :: "ViewContainerRef \<Rightarrow> RouterOutlet \<Rightarrow> RouterOutlet" where
  "set_location x this = RouterOutlet (self this) (activated this) (u_activatedRoute this)
     (name this) (activateEvents this) (deactivateEvents this) (parentContexts this) x
     (resolver this) (changeDetector this)"

definition set_changeDetector :: "ChangeDetectorRef \<Rightarrow> RouterOutlet \<Rightarrow> RouterOutlet" where
  "set_changeDetector x this = RouterOutlet (self this) (activated this) (u_activatedRoute this)
     (name this) (activateEvents this) (deactivateEvents this) (parentContexts this)
     (location this) (resolver this) x"

text \<open>The identity of a component object, and the test \<^verbatim>\<open>c instanceof EmptyOutletComponent\<close>
  on a value that may be \<^verbatim>\<open>null\<close>.\<close>

fun ident :: "Instance \<Rightarrow> ref" where
  "ident (Component r) = r"
| "ident (Empty c) = e_self c"

fun instanceof_EmptyOutletComponent :: "Instance option \<Rightarrow> bool" where
  "instanceof_EmptyOutletComponent None = False"
| "instanceof_EmptyOutletComponent (Some (Component r)) = False"
| "instanceof_EmptyOutletComponent (Some (Empty c)) = True"

subsection \<open>The framework primitives\<close>

text \<open>Modelled from the spec: a new emitter, \<^verbatim>\<open>emit\<close>, \<^verbatim>\<open>subscribe\<close>, \<^verbatim>\<open>unsubscribe\<close>.
  Calling the observers is done where their targets are in scope (\<open>run_callback\<close>).\<close>

definition new_EventEmitter :: EventEmitter where
  "new_EventEmitter = \<lparr>emitted = [], observers = []\<rparr>"

definition emit :: "ref option \<Rightarrow> EventEmitter \<Rightarrow> EventEmitter" where
  "emit ev e = e\<lparr>emitted := emitted e @ [ev]\<rparr>"

definition next_key :: "(nat \<times> callback) list \<Rightarrow> nat" where
  "next_key obs = Suc (foldr max (map fst obs) 0)"

definition subscribe :: "callback \<Rightarrow> EventEmitter \<Rightarrow> nat \<times> EventEmitter" where
  "subscribe cb e =
     (let k = next_key (observers e) in (k, e\<lparr>observers := observers e @ [(k, cb)]\<rparr>))"

definition unsubscribe :: "nat \<Rightarrow> EventEmitter \<Rightarrow> EventEmitter" where
  "unsubscribe k e = e\<lparr>observers := filter (\<lambda>kc. fst kc \<noteq> k) (observers e)\<rparr>"

definition new_Subject :: Subject where
  "new_Subject = \<lparr>subscribers = [], isStopped = False\<rparr>"

definition Subject_subscribe :: "Subscription \<Rightarrow> Subject \<Rightarrow> Subject" where
  "Subject_subscribe sink s =
     (if isStopped s then s else s\<lparr>subscribers := subscribers s @ [sink]\<rparr>)"

text \<open>The field initialisers of \<^verbatim>\<open>EmptyOutletComponent\<close> (lines 225 to 230).\<close>

definition new_EmptyOutletComponent :: "ref \<Rightarrow> EmptyOutletComponent" where
  "new_EmptyOutletComponent r =
     EmptyOutletComponent r new_EventEmitter new_EventEmitter None new_Subject"

text \<open>Modelled from the spec: the container's \<^verbatim>\<open>length\<close>, \<^verbatim>\<open>createComponent\<close> (construct a
  view from a descriptor at an insertion index with a dependency resolver), \<^verbatim>\<open>detach()\<close>
  (without an index: the last view), \<^verbatim>\<open>insert(view)\<close> (without an index: at the end), and
  the handle's \<^verbatim>\<open>destroy()\<close>.\<close>

definition VCR_length :: "ViewContainerRef \<Rightarrow> nat" where
  "VCR_length loc = length (views loc)"

definition createComponent ::
  "ComponentFactory \<Rightarrow> nat \<Rightarrow> OutletInjector \<Rightarrow> ViewContainerRef
     \<Rightarrow> (ComponentRef \<times> ViewContainerRef) result" where
  "createComponent factory index ij loc =
     (case create factory of
        Inl e \<Rightarrow> Inl e
      | Inr (r, hv) \<Rightarrow>
          Inr (ComponentRef
                 (if componentType factory = EmptyOutletComponent_Type
                  then Empty (new_EmptyOutletComponent r) else Component r)
                 hv ij,
               loc\<lparr>views := take index (views loc) @ [hv] @ drop index (views loc)\<rparr>))"

definition VCR_detach :: "ViewContainerRef \<Rightarrow> ViewContainerRef" where
  "VCR_detach loc = loc\<lparr>views := butlast (views loc)\<rparr>"

definition VCR_insert :: "ViewRef \<Rightarrow> ViewContainerRef \<Rightarrow> ViewContainerRef" where
  "VCR_insert hv loc = loc\<lparr>views := views loc @ [hv]\<rparr>"

definition ComponentRef_destroy :: "ComponentRef \<Rightarrow> ViewContainerRef \<Rightarrow> ViewContainerRef" where
  "ComponentRef_destroy cr loc =
     loc\<lparr>views := remove1 (hostView cr) (views loc),
         destroyed := destroyed loc @ [hostView cr]\<rparr>"

definition markForCheck :: "ChangeDetectorRef \<Rightarrow> ChangeDetectorRef" where
  "markForCheck cd = cd\<lparr>markedForCheck := Suc (markedForCheck cd)\<rparr>"

text \<open>Modelled from the spec: the context registry's \<^verbatim>\<open>getContext(name)\<close>,
  \<^verbatim>\<open>getOrCreateContext(name)\<close>, \<^verbatim>\<open>onChildOutletCreated(name, outlet)\<close> and
  \<^verbatim>\<open>onChildOutletDestroyed(name)\<close>, and the constant \<^verbatim>\<open>PRIMARY_OUTLET\<close>.\<close>

definition PRIMARY_OUTLET :: string where
  "PRIMARY_OUTLET = ''primary''"

definition new_OutletContext :: OutletContext where
  "new_OutletContext = OutletContext None None None (ChildrenOutletContexts []) None"

definition getContext :: "ChildrenOutletContexts \<Rightarrow> string \<Rightarrow> OutletContext option" where
  "getContext pc childName = map_of (contexts pc) childName"

definition getOrCreateContext ::
  "ChildrenOutletContexts \<Rightarrow> string \<Rightarrow> OutletContext \<times> ChildrenOutletContexts" where
  "getOrCreateContext pc childName =
     (case getContext pc childName of
        Some ctx \<Rightarrow> (ctx, pc)
      | None \<Rightarrow> (new_OutletContext,
                 ChildrenOutletContexts (contexts pc @ [(childName, new_OutletContext)])))"

definition set_c_outlet :: "ref option \<Rightarrow> OutletContext \<Rightarrow> OutletContext" where
  "set_c_outlet x ctx =
     OutletContext x (c_route ctx) (c_resolver ctx) (children ctx) (attachRef ctx)"

definition put_context ::
  "string \<Rightarrow> OutletContext \<Rightarrow> ChildrenOutletContexts \<Rightarrow> ChildrenOutletContexts" where
  "put_context childName ctx pc =
     ChildrenOutletContexts
       (map (\<lambda>kv. if fst kv = childName then (childName, ctx) else kv) (contexts pc))"

definition onChildOutletCreated ::
  "string \<Rightarrow> ref \<Rightarrow> ChildrenOutletContexts \<Rightarrow> ChildrenOutletContexts" where
  "onChildOutletCreated childName out pc =
     (case getOrCreateContext pc childName of
        (ctx, pc') \<Rightarrow> put_context childName (set_c_outlet (Some out) ctx) pc')"

definition onChildOutletDestroyed ::
  "string \<Rightarrow> ChildrenOutletContexts \<Rightarrow> ChildrenOutletContexts" where
  "onChildOutletDestroyed childName pc =
     (case getContext pc childName of
        Some ctx \<Rightarrow> put_context childName (set_c_outlet None ctx) pc
      | None \<Rightarrow> pc)"

subsection \<open>\<^verbatim>\<open>OutletInjector\<close> (lines 191 to 207)\<close>

datatype Injected =
    Injected_ActivatedRoute ActivatedRoute
  | Injected_ChildrenOutletContexts ChildrenOutletContexts
  | Injected_any any

definition OutletInjector_get :: "OutletInjector \<Rightarrow> token \<Rightarrow> any option \<Rightarrow> Injected result" where
  "OutletInjector_get this tok notFoundValue =
     (if tok = ActivatedRoute_token then Inr (Injected_ActivatedRoute (route this))
      else if tok = ChildrenOutletContexts_token
        then Inr (Injected_ChildrenOutletContexts (childContexts this))
      else map_sum id Injected_any (parent this tok notFoundValue))"

subsection \<open>The accessors of \<^verbatim>\<open>RouterOutlet\<close> and \<^verbatim>\<open>EmptyOutletComponent\<close>\<close>

definition isActivated :: "RouterOutlet \<Rightarrow> bool result" where
  "isActivated this = Inr (activated this \<noteq> None)"

text \<open>
  \<^verbatim>\<open>RouterOutlet.component\<close> (lines 105 to 112) and \<^verbatim>\<open>EmptyOutletComponent.component\<close>
  (lines 232 to 237) call each other; the result is the object, \<open>None\<close> for \<^verbatim>\<open>null\<close>.
\<close>

fun component :: "RouterOutlet \<Rightarrow> (Instance option) result"
and EOC_component :: "EmptyOutletComponent \<Rightarrow> (Instance option) result" where
  "component (RouterOutlet s None r n ae de pc l rs cd) = Inl NotActivatedError"
| "component (RouterOutlet s (Some (ComponentRef (Empty c) hv ij)) r n ae de pc l rs cd) =
     EOC_component c"
| "component (RouterOutlet s (Some (ComponentRef (Component x) hv ij)) r n ae de pc l rs cd) =
     Inr (Some (Component x))"
| "EOC_component (EmptyOutletComponent s ae de None d) = Inr None"
| "EOC_component (EmptyOutletComponent s ae de (Some out) d) = component out"

definition activatedRoute :: "RouterOutlet \<Rightarrow> (ActivatedRoute option) result" where
  "activatedRoute this =
     (if activated this = None then Inl NotActivatedError else Inr (u_activatedRoute this))"

definition activatedRouteData :: "RouterOutlet \<Rightarrow> Data result" where
  "activatedRouteData this =
     (case u_activatedRoute this of
        Some r \<Rightarrow> Inr (data (snapshot r))
      | None \<Rightarrow> Inr Map.empty)"

definition EOC_activatedRoute :: "EmptyOutletComponent \<Rightarrow> (ActivatedRoute option) result" where
  "EOC_activatedRoute this =
     (case outlet this of
        None \<Rightarrow> Inr None
      | Some out \<Rightarrow> activatedRoute out)"

definition EOC_activatedRouteData :: "EmptyOutletComponent \<Rightarrow> Data result" where
  "EOC_activatedRouteData this =
     (case EOC_activatedRoute this of
        Inl e \<Rightarrow> Inl e
      | Inr None \<Rightarrow> Inr Map.empty
      | Inr (Some _) \<Rightarrow>
          (case EOC_activatedRoute this of
             Inl e \<Rightarrow> Inl e
           | Inr None \<Rightarrow> Inl (TypeError ''activatedRoute is null'')
           | Inr (Some r) \<Rightarrow> Inr (data (snapshot r))))"

subsection \<open>The operations of \<^verbatim>\<open>RouterOutlet\<close>\<close>

text \<open>The constructor (lines 72 to 78) and \<^verbatim>\<open>ngOnDestroy\<close> (lines 80 to 82).\<close>

definition new_RouterOutlet ::
  "ref \<Rightarrow> ChildrenOutletContexts \<Rightarrow> ViewContainerRef \<Rightarrow> ComponentFactoryResolver
     \<Rightarrow> string option \<Rightarrow> ChangeDetectorRef \<Rightarrow> RouterOutlet" where
  "new_RouterOutlet this_ref pc loc rs nm cd =
     (let n = (case nm of None \<Rightarrow> PRIMARY_OUTLET
                | Some s \<Rightarrow> if s = [] then PRIMARY_OUTLET else s)
      in RouterOutlet this_ref None None n new_EventEmitter new_EventEmitter
           (onChildOutletCreated n this_ref pc) loc rs cd)"

definition ngOnDestroy :: "RouterOutlet \<Rightarrow> unit result \<times> RouterOutlet" where
  "ngOnDestroy this =
     (Inr (), set_parentContexts (onChildOutletDestroyed (name this) (parentContexts this)) this)"

text \<open>\<^verbatim>\<open>detach\<close> (lines 129 to 136) and \<^verbatim>\<open>attach\<close> (lines 141 to 145).\<close>

definition detach :: "RouterOutlet \<Rightarrow> ComponentRef result \<times> RouterOutlet" where
  "detach this =
     (case activated this of
        None \<Rightarrow> (Inl NotActivatedError, this)
      | Some cmp \<Rightarrow>
          (let this1 = set_location (VCR_detach (location this)) this;
               this2 = set_activated None this1;
               this3 = set_u_activatedRoute None this2
           in (Inr cmp, this3)))"

definition attach :: "ComponentRef \<Rightarrow> ActivatedRoute \<Rightarrow> RouterOutlet \<Rightarrow> unit result \<times> RouterOutlet" where
  "attach cref aroute this =
     (let this1 = set_activated (Some cref) this;
          this2 = set_u_activatedRoute (Some aroute) this1;
          this3 = set_location (VCR_insert (hostView cref) (location this2)) this2
      in (Inr (), this3))"

text \<open>\<^verbatim>\<open>deactivate\<close> (lines 147 to 159).\<close>

definition deactivate :: "RouterOutlet \<Rightarrow> unit result \<times> RouterOutlet" where
  "deactivate this =
     (case activated this of
        None \<Rightarrow> (Inr (), this)
      | Some a \<Rightarrow>
          (case component this of
             Inl e \<Rightarrow> (Inl e, this)
           | Inr c \<Rightarrow>
               (let this1 = set_location (ComponentRef_destroy a (location this)) this;
                    this2 = set_activated None this1;
                    this3 = set_u_activatedRoute None this2
                in if \<not> instanceof_EmptyOutletComponent c
                   then (Inr (), set_deactivateEvents
                                   (emit (map_option ident c) (deactivateEvents this3)) this3)
                   else (Inr (), this3))))"

text \<open>The subscriptions of lines 181 to 184, made on the placeholder \<open>c\<close> by the outlet
  \<open>this_ref\<close>.\<close>

definition subscribe_relay :: "ref \<Rightarrow> EmptyOutletComponent \<Rightarrow> EmptyOutletComponent" where
  "subscribe_relay this_ref c =
     (case subscribe (EmitActivate this_ref) (e_activateEvents c) of
        (k1, ae) \<Rightarrow>
          (case subscribe (EmitDeactivate this_ref) (e_deactivateEvents c) of
             (k2, de) \<Rightarrow>
               EmptyOutletComponent (e_self c) ae de (outlet c)
                 (Subject_subscribe [UnsubscribeActivate k1, UnsubscribeDeactivate k2]
                    (destroy c))))"

text \<open>\<^verbatim>\<open>activateWith\<close> (lines 161 to 188).\<close>

definition activateWith ::
  "ActivatedRoute \<Rightarrow> ComponentFactoryResolver option \<Rightarrow> RouterOutlet
     \<Rightarrow> unit result \<times> RouterOutlet" where
  "activateWith aroute rslv this =
     (case isActivated this of
        Inl e \<Rightarrow> (Inl e, this)
      | Inr True \<Rightarrow> (Inl AlreadyActivatedError, this)
      | Inr False \<Rightarrow>
     (let this1 = set_u_activatedRoute (Some aroute) this;
          snap = futureSnapshot aroute
      in case routeConfig snap of
           None \<Rightarrow> (Inl (TypeError ''routeConfig is null''), this1)
         | Some cfg \<Rightarrow>
     (let cmpType = Route_component cfg;
          rslv' = (case rslv of Some r \<Rightarrow> r | None \<Rightarrow> resolver this1)
      in case rslv' cmpType of
           Inl e \<Rightarrow> (Inl e, this1)
         | Inr factory \<Rightarrow>
     (case getOrCreateContext (parentContexts this1) (name this1) of
        (ctx, pc') \<Rightarrow>
     (let this2 = set_parentContexts pc' this1;
          ij = OutletInjector aroute (children ctx) (loc_injector (location this2))
      in case createComponent factory (VCR_length (location this2)) ij (location this2) of
           Inl e \<Rightarrow> (Inl e, this2)
         | Inr (cref, loc') \<Rightarrow>
     (let this3 = set_activated (Some cref) (set_location loc' this2);
          this4 = set_changeDetector (markForCheck (changeDetector this3)) this3
      in case c_instance cref of
           Empty c \<Rightarrow>
             (Inr (), set_activated
                        (Some (ComponentRef (Empty (subscribe_relay (self this4) c))
                                 (hostView cref) (injector cref))) this4)
         | Component x \<Rightarrow>
             (Inr (), set_activateEvents
                        (emit (Some (ident (c_instance cref))) (activateEvents this4)) this4)))))))"

text \<open>\<^verbatim>\<open>ngOnInit\<close> (lines 84 to 99).\<close>

definition ngOnInit :: "RouterOutlet \<Rightarrow> unit result \<times> RouterOutlet" where
  "ngOnInit this =
     (if activated this = None then
        (case getContext (parentContexts this) (name this) of
           None \<Rightarrow> (Inr (), this)
         | Some ctx \<Rightarrow>
             (case c_route ctx of
                None \<Rightarrow> (Inr (), this)
              | Some rt \<Rightarrow>
                  (case attachRef ctx of
                     Some aref \<Rightarrow> attach aref rt this
                   | None \<Rightarrow> activateWith rt (c_resolver ctx) this)))
      else (Inr (), this))"

subsection \<open>The methods of \<^verbatim>\<open>EmptyOutletComponent\<close> (lines 253 to 264)\<close>

text \<open>
  A subscribed closure run with the event \<open>ev\<close>: it emits on the outlet it captured. Seen
  from the object graph of the outlet \<open>this\<close>, only a closure that captured \<open>this\<close>
  changes something.
\<close>

fun run_callback :: "ref option \<Rightarrow> RouterOutlet \<Rightarrow> callback \<Rightarrow> RouterOutlet" where
  "run_callback ev this (EmitActivate r) =
     (if r = self this then set_activateEvents (emit ev (activateEvents this)) this else this)"
| "run_callback ev this (EmitDeactivate r) =
     (if r = self this then set_deactivateEvents (emit ev (deactivateEvents this)) this else this)"

text \<open>
  \<^verbatim>\<open>activate(ev)\<close> and \<^verbatim>\<open>deactivate(ev)\<close> of the placeholder that the outlet \<open>this\<close> holds
  as its activated instance: the placeholder emits on its own channel, whose observers
  run in subscription order.
\<close>

definition EOC_activate :: "ref option \<Rightarrow> RouterOutlet \<Rightarrow> RouterOutlet" where
  "EOC_activate ev this =
     (case activated this of
        Some (ComponentRef (Empty c) hv ij) \<Rightarrow>
          (let c' = EmptyOutletComponent (e_self c) (emit ev (e_activateEvents c))
                      (e_deactivateEvents c) (outlet c) (destroy c);
               this1 = set_activated (Some (ComponentRef (Empty c') hv ij)) this
           in foldl (run_callback ev) this1 (map snd (observers (e_activateEvents c))))
      | _ \<Rightarrow> this)"

definition EOC_deactivate :: "ref option \<Rightarrow> RouterOutlet \<Rightarrow> RouterOutlet" where
  "EOC_deactivate ev this =
     (case activated this of
        Some (ComponentRef (Empty c) hv ij) \<Rightarrow>
          (let c' = EmptyOutletComponent (e_self c) (e_activateEvents c)
                      (emit ev (e_deactivateEvents c)) (outlet c) (destroy c);
               this1 = set_activated (Some (ComponentRef (Empty c') hv ij)) this
           in foldl (run_callback ev) this1 (map snd (observers (e_deactivateEvents c))))
      | _ \<Rightarrow> this)"

fun run_teardown :: "EmptyOutletComponent \<Rightarrow> teardown \<Rightarrow> EmptyOutletComponent" where
  "run_teardown c (UnsubscribeActivate k) =
     EmptyOutletComponent (e_self c) (unsubscribe k (e_activateEvents c))
       (e_deactivateEvents c) (outlet c) (destroy c)"
| "run_teardown c (UnsubscribeDeactivate k) =
     EmptyOutletComponent (e_self c) (e_activateEvents c)
       (unsubscribe k (e_deactivateEvents c)) (outlet c) (destroy c)"

definition EOC_ngOnDestroy :: "EmptyOutletComponent \<Rightarrow> EmptyOutletComponent" where
  "EOC_ngOnDestroy c =
     (let c' = foldl run_teardown c (concat (subscribers (destroy c)))
      in EmptyOutletComponent (e_self c') (e_activateEvents c') (e_deactivateEvents c')
           (outlet c') \<lparr>subscribers = [], isStopped = True\<rparr>)"

text \<open>
  The events that reach the placeholder from its template
  (the listeners \<^verbatim>\<open>activate($event)\<close> and \<^verbatim>\<open>deactivate($event)\<close> on its nested outlet), and what the outlet
  that holds the placeholder has emitted after a sequence of them.
\<close>

datatype relayed = Activate_event "ref option" | Deactivate_event "ref option"

fun EOC_handle :: "relayed \<Rightarrow> RouterOutlet \<Rightarrow> RouterOutlet" where
  "EOC_handle (Activate_event ev) this = EOC_activate ev this"
| "EOC_handle (Deactivate_event ev) this = EOC_deactivate ev this"

fun activations :: "relayed list \<Rightarrow> ref option list" where
  "activations [] = []"
| "activations (Activate_event ev # es) = ev # activations es"
| "activations (Deactivate_event ev # es) = activations es"

fun deactivations :: "relayed list \<Rightarrow> ref option list" where
  "deactivations [] = []"
| "deactivations (Activate_event ev # es) = deactivations es"
| "deactivations (Deactivate_event ev # es) = ev # deactivations es"

subsection \<open>Runs of operations on one outlet\<close>




subsection \<open>Concrete objects\<close>

definition ex_injector :: Injector where
  "ex_injector tok nf = (case nf of Some v \<Rightarrow> Inr v | None \<Rightarrow> Inl (Error ''No provider''))"

definition ex_location :: ViewContainerRef where
  "ex_location = \<lparr>views = [], destroyed = [], loc_injector = ex_injector\<rparr>"

definition ex_resolver :: ComponentFactoryResolver where
  "ex_resolver t =
     (if t = Some (Component_Type ''ViewA'')
        then Inr \<lparr>componentType = Component_Type ''ViewA'', create = Inr (7, 70)\<rparr>
      else if t = Some EmptyOutletComponent_Type
        then Inr \<lparr>componentType = EmptyOutletComponent_Type, create = Inr (8, 80)\<rparr>
      else if t = Some (Component_Type ''Broken'')
        then Inr \<lparr>componentType = Component_Type ''Broken'',
                  create = Inl (Error ''constructor failed'')\<rparr>
      else Inl (Error ''No component factory found''))"

definition ex_route :: "Type option \<Rightarrow> ActivatedRoute" where
  "ex_route t =
     \<lparr>route_ref = 3,
      snapshot = \<lparr>data = [''title'' \<mapsto> ''A''], routeConfig = Some \<lparr>Route_component = t\<rparr>\<rparr>,
      futureSnapshot = \<lparr>data = [''title'' \<mapsto> ''A''], routeConfig = Some \<lparr>Route_component = t\<rparr>\<rparr>\<rparr>"

definition ex_outlet :: RouterOutlet where
  "ex_outlet =
     new_RouterOutlet 1 (ChildrenOutletContexts []) ex_location ex_resolver None
       \<lparr>markedForCheck = 0\<rparr>"

definition ex_nested :: RouterOutlet where
  "ex_nested =
     new_RouterOutlet 2 (ChildrenOutletContexts []) ex_location ex_resolver None
       \<lparr>markedForCheck = 0\<rparr>"

text \<open>An outlet activated with a route whose component is \<open>ViewA\<close>.\<close>

definition ex_active :: RouterOutlet where
  "ex_active = snd (activateWith (ex_route (Some (Component_Type ''ViewA''))) None ex_outlet)"

definition ex_nested_active :: RouterOutlet where
  "ex_nested_active =
     snd (activateWith (ex_route (Some (Component_Type ''ViewA''))) None ex_nested)"

text \<open>The handle that this activation creates.\<close>

definition ex_cref :: ComponentRef where
  "ex_cref =
     ComponentRef (Component 7) 70
       (OutletInjector (ex_route (Some (Component_Type ''ViewA''))) (ChildrenOutletContexts [])
          ex_injector)"

text \<open>The view child of the placeholder that an outlet holds gets resolved to the outlet
  \<open>nested\<close>: what the framework does when it initialises the placeholder's view.\<close>

definition resolve_view_child :: "RouterOutlet \<Rightarrow> RouterOutlet \<Rightarrow> RouterOutlet" where
  "resolve_view_child nested this =
     (case activated this of
        Some (ComponentRef (Empty c) hv ij) \<Rightarrow>
          set_activated
            (Some (ComponentRef
                     (Empty (EmptyOutletComponent (e_self c) (e_activateEvents c)
                               (e_deactivateEvents c) (Some nested) (destroy c)))
                     hv ij)) this
      | _ \<Rightarrow> this)"

text \<open>Outlet 1 activated with a route that has no view of its own: it holds a new
  placeholder, whose view child is not resolved yet.\<close>

definition ex_proxy_fresh :: RouterOutlet where
  "ex_proxy_fresh = snd (activateWith (ex_route (Some EmptyOutletComponent_Type)) None ex_outlet)"

text \<open>The same outlet once the placeholder's nested outlet 2 exists, not activated, and
  once that nested outlet is activated with \<open>ViewA\<close> and the placeholder has relayed the
  nested outlet's activate event.\<close>

definition ex_proxy_idle :: RouterOutlet where
  "ex_proxy_idle = resolve_view_child ex_nested ex_proxy_fresh"

definition ex_proxy_active :: RouterOutlet where
  "ex_proxy_active = EOC_activate (Some 7) (resolve_view_child ex_nested_active ex_proxy_fresh)"

text \<open>The placeholder that outlet 1 holds after that activation, with its view child.\<close>

definition ex_placeholder :: "RouterOutlet option \<Rightarrow> EmptyOutletComponent" where
  "ex_placeholder nested =
     EmptyOutletComponent 8
       \<lparr>emitted = [], observers = [(1, EmitActivate 1)]\<rparr>
       \<lparr>emitted = [], observers = [(1, EmitDeactivate 1)]\<rparr>
       nested
       \<lparr>subscribers = [[UnsubscribeActivate 1, UnsubscribeDeactivate 1]], isStopped = False\<rparr>"

text \<open>Outlets created after the navigation engine filled the context of their name: one
  with a detached view to mount, one with a pending route and a resolver of the context's
  own; and an outlet whose registry holds no context for its name.\<close>

definition ex_override :: ComponentFactoryResolver where
  "ex_override t =
     (if t = Some (Component_Type ''ViewA'')
        then Inr \<lparr>componentType = Component_Type ''ViewA'', create = Inr (9, 90)\<rparr>
      else Inl (Error ''No component factory found''))"

definition ex_ctx_attach :: OutletContext where
  "ex_ctx_attach =
     OutletContext None (Some (ex_route (Some (Component_Type ''ViewA'')))) None
       (ChildrenOutletContexts []) (Some ex_cref)"

definition ex_ctx_pending :: OutletContext where
  "ex_ctx_pending =
     OutletContext None (Some (ex_route (Some (Component_Type ''ViewA'')))) (Some ex_override)
       (ChildrenOutletContexts []) None"

definition ex_lazy_attach :: RouterOutlet where
  "ex_lazy_attach =
     new_RouterOutlet 1 (ChildrenOutletContexts [(''primary'', ex_ctx_attach)]) ex_location
       ex_resolver None \<lparr>markedForCheck = 0\<rparr>"

definition ex_lazy_pending :: RouterOutlet where
  "ex_lazy_pending =
     new_RouterOutlet 1 (ChildrenOutletContexts [(''primary'', ex_ctx_pending)]) ex_location
       ex_resolver None \<lparr>markedForCheck = 0\<rparr>"

definition ex_unregistered :: RouterOutlet where
  "ex_unregistered = set_parentContexts (ChildrenOutletContexts []) ex_outlet"

section \<open>Properties\<close>

subsection \<open>Field assignments and the recursive getters\<close>

lemma sel_set_activated [simp]:
  "self (set_activated x t) = self t"
  "activated (set_activated x t) = x"
  "u_activatedRoute (set_activated x t) = u_activatedRoute t"
  "name (set_activated x t) = name t"
  "activateEvents (set_activated x t) = activateEvents t"
  "deactivateEvents (set_activated x t) = deactivateEvents t"
  "parentContexts (set_activated x t) = parentContexts t"
  "location (set_activated x t) = location t"
  "resolver (set_activated x t) = resolver t"
  "changeDetector (set_activated x t) = changeDetector t"
  by (simp_all add: set_activated_def)

lemma sel_set_u_activatedRoute [simp]:
  "self (set_u_activatedRoute x t) = self t"
  "activated (set_u_activatedRoute x t) = activated t"
  "u_activatedRoute (set_u_activatedRoute x t) = x"
  "name (set_u_activatedRoute x t) = name t"
  "activateEvents (set_u_activatedRoute x t) = activateEvents t"
  "deactivateEvents (set_u_activatedRoute x t) = deactivateEvents t"
  "parentContexts (set_u_activatedRoute x t) = parentContexts t"
  "location (set_u_activatedRoute x t) = location t"
  "resolver (set_u_activatedRoute x t) = resolver t"
  "changeDetector (set_u_activatedRoute x t) = changeDetector t"
  by (simp_all add: set_u_activatedRoute_def)

lemma sel_set_activateEvents [simp]:
  "self (set_activateEvents x t) = self t"
  "activated (set_activateEvents x t) = activated t"
  "u_activatedRoute (set_activateEvents x t) = u_activatedRoute t"
  "name (set_activateEvents x t) = name t"
  "activateEvents (set_activateEvents x t) = x"
  "deactivateEvents (set_activateEvents x t) = deactivateEvents t"
  "parentContexts (set_activateEvents x t) = parentContexts t"
  "location (set_activateEvents x t) = location t"
  "resolver (set_activateEvents x t) = resolver t"
  "changeDetector (set_activateEvents x t) = changeDetector t"
  by (simp_all add: set_activateEvents_def)

lemma sel_set_deactivateEvents [simp]:
  "self (set_deactivateEvents x t) = self t"
  "activated (set_deactivateEvents x t) = activated t"
  "u_activatedRoute (set_deactivateEvents x t) = u_activatedRoute t"
  "name (set_deactivateEvents x t) = name t"
  "activateEvents (set_deactivateEvents x t) = activateEvents t"
  "deactivateEvents (set_deactivateEvents x t) = x"
  "parentContexts (set_deactivateEvents x t) = parentContexts t"
  "location (set_deactivateEvents x t) = location t"
  "resolver (set_deactivateEvents x t) = resolver t"
  "changeDetector (set_deactivateEvents x t) = changeDetector t"
  by (simp_all add: set_deactivateEvents_def)

lemma sel_set_parentContexts [simp]:
  "self (set_parentContexts x t) = self t"
  "activated (set_parentContexts x t) = activated t"
  "u_activatedRoute (set_parentContexts x t) = u_activatedRoute t"
  "name (set_parentContexts x t) = name t"
  "activateEvents (set_parentContexts x t) = activateEvents t"
  "deactivateEvents (set_parentContexts x t) = deactivateEvents t"
  "parentContexts (set_parentContexts x t) = x"
  "location (set_parentContexts x t) = location t"
  "resolver (set_parentContexts x t) = resolver t"
  "changeDetector (set_parentContexts x t) = changeDetector t"
  by (simp_all add: set_parentContexts_def)

lemma sel_set_location [simp]:
  "self (set_location x t) = self t"
  "activated (set_location x t) = activated t"
  "u_activatedRoute (set_location x t) = u_activatedRoute t"
  "name (set_location x t) = name t"
  "activateEvents (set_location x t) = activateEvents t"
  "deactivateEvents (set_location x t) = deactivateEvents t"
  "parentContexts (set_location x t) = parentContexts t"
  "location (set_location x t) = x"
  "resolver (set_location x t) = resolver t"
  "changeDetector (set_location x t) = changeDetector t"
  by (simp_all add: set_location_def)

lemma sel_set_changeDetector [simp]:
  "self (set_changeDetector x t) = self t"
  "activated (set_changeDetector x t) = activated t"
  "u_activatedRoute (set_changeDetector x t) = u_activatedRoute t"
  "name (set_changeDetector x t) = name t"
  "activateEvents (set_changeDetector x t) = activateEvents t"
  "deactivateEvents (set_changeDetector x t) = deactivateEvents t"
  "parentContexts (set_changeDetector x t) = parentContexts t"
  "location (set_changeDetector x t) = location t"
  "resolver (set_changeDetector x t) = resolver t"
  "changeDetector (set_changeDetector x t) = x"
  by (simp_all add: set_changeDetector_def)

text \<open>The two getters in the shape of the source.\<close>

lemma component_eq:
  "component this =
     (case activated this of
        None \<Rightarrow> Inl NotActivatedError
      | Some cr \<Rightarrow>
          (case c_instance cr of
             Empty c \<Rightarrow> EOC_component c
           | Component x \<Rightarrow> Inr (Some (Component x))))"
proof (cases this)
  case (RouterOutlet s a r n ae de pc l rs cd)
  show ?thesis
  proof (cases a)
    case None
    with RouterOutlet show ?thesis by simp
  next
    case (Some cr)
    obtain i hv ij where cr: "cr = ComponentRef i hv ij" by (cases cr)
    show ?thesis using RouterOutlet Some cr by (cases i) simp_all
  qed
qed

lemma EOC_component_eq:
  "EOC_component c = (case outlet c of None \<Rightarrow> Inr None | Some out \<Rightarrow> component out)"
proof (cases c)
  case (EmptyOutletComponent s ae de out d)
  then show ?thesis by (cases out) simp_all
qed

lemma component_never_placeholder:
  "(\<forall>c. component this = Inr c \<longrightarrow> \<not> instanceof_EmptyOutletComponent c)"
  "(\<forall>c. EOC_component e = Inr c \<longrightarrow> \<not> instanceof_EmptyOutletComponent c)"
  by (induction this and e rule: component_EOC_component.induct) auto

lemma getOrCreateContext_getContext:
  "getOrCreateContext pc n = (ctx, pc') \<Longrightarrow> getContext pc' n = Some ctx"
  by (auto simp: getOrCreateContext_def getContext_def map_add_def split: option.splits)

subsection \<open>The concrete objects, evaluated\<close>

lemmas ex_defs = ex_injector_def ex_location_def ex_resolver_def ex_route_def ex_outlet_def ex_active_def ex_nested_def ex_nested_active_def
  ex_cref_def ex_placeholder_def
  resolve_view_child_def ex_proxy_fresh_def ex_proxy_idle_def ex_proxy_active_def
  new_RouterOutlet_def activateWith_def isActivated_def
  getOrCreateContext_def getContext_def onChildOutletCreated_def
  put_context_def set_c_outlet_def new_OutletContext_def PRIMARY_OUTLET_def createComponent_def VCR_length_def
  new_EmptyOutletComponent_def new_EventEmitter_def new_Subject_def emit_def subscribe_def next_key_def
  Subject_subscribe_def markForCheck_def subscribe_relay_def Let_def

lemma ex_active_views: "views (location ex_active) = [70]"
  by (simp add: ex_defs)

lemma ex_outlet_fields:
  "activated ex_outlet = None" "u_activatedRoute ex_outlet = None"
  by (simp_all add: ex_outlet_def new_RouterOutlet_def)

lemma ex_active_fields:
  "activated ex_active = Some ex_cref"
  "u_activatedRoute ex_active = Some (ex_route (Some (Component_Type ''ViewA'')))"
  by (simp_all add: ex_defs)

subsection \<open>Query operations\<close>

text \<open>
  Claim C6, as the spec states it, at an outlet that was just constructed: the outlet is
  not activated, and \<^verbatim>\<open>isActivated\<close> does not fail with the not-activated error (it
  returns \<open>false\<close>).
\<close>

theorem C6_counterexample:
  "activated ex_outlet = None \<and> isActivated ex_outlet \<noteq> Inl NotActivatedError"
  by (simp add: ex_outlet_def new_RouterOutlet_def isActivated_def)

text \<open>
  Claim C6, amended: \<^verbatim>\<open>isActivated\<close> never fails, it returns whether a view handle is
  held; \<^verbatim>\<open>component\<close> and \<^verbatim>\<open>activatedRoute\<close> fail with the not-activated error when no
  view handle is held; \<^verbatim>\<open>activatedRouteData\<close> never fails, it returns the empty data
  object when no route is recorded and the data payload of the recorded route's
  snapshot otherwise.
\<close>

theorem C6_queries:
  "isActivated this = Inr (activated this \<noteq> None)
   \<and> (activated this = None \<longrightarrow>
        component this = Inl NotActivatedError \<and> activatedRoute this = Inl NotActivatedError)
   \<and> (u_activatedRoute this = None \<longrightarrow> activatedRouteData this = Inr Map.empty)
   \<and> (\<forall>r. u_activatedRoute this = Some r \<longrightarrow>
          activatedRouteData this = Inr (data (snapshot r)))"
  by (simp add: isActivated_def component_eq activatedRoute_def activatedRouteData_def)

theorem C6_queries_witness:
  "activated ex_outlet = None \<and> u_activatedRoute ex_outlet = None
   \<and> u_activatedRoute ex_active = Some (ex_route (Some (Component_Type ''ViewA'')))
   \<and> isActivated ex_outlet = Inr False
   \<and> component ex_outlet = Inl NotActivatedError
   \<and> activatedRoute ex_outlet = Inl NotActivatedError
   \<and> activatedRouteData ex_outlet = Inr Map.empty
   \<and> activatedRouteData ex_active = Inr [''title'' \<mapsto> ''A'']"
  using C6_queries [of ex_outlet] C6_queries [of ex_active]
  by (simp add: ex_outlet_fields ex_active_fields ex_route_def)

subsection \<open>Detach and attach\<close>

text \<open>
  Claim C10: \<^verbatim>\<open>attach\<close> checks nothing and never fails. Whatever the outlet held before,
  also a view handle, afterwards it holds the supplied handle and route; the supplied
  host view is added at the end of the container and every view that was there stays;
  no \<^verbatim>\<open>destroy()\<close> is called and nothing is emitted on either channel.
\<close>

theorem C10_attach:
  "fst (attach cref rt this) = Inr ()
   \<and> activated (snd (attach cref rt this)) = Some cref
   \<and> u_activatedRoute (snd (attach cref rt this)) = Some rt
   \<and> views (location (snd (attach cref rt this))) = views (location this) @ [hostView cref]
   \<and> destroyed (location (snd (attach cref rt this))) = destroyed (location this)
   \<and> activateEvents (snd (attach cref rt this)) = activateEvents this
   \<and> deactivateEvents (snd (attach cref rt this)) = deactivateEvents this"
  by (simp add: attach_def VCR_insert_def)

text \<open>
  Claim C5: \<^verbatim>\<open>detach\<close> on an outlet that holds no view handle fails with the
  not-activated error and changes nothing. On an outlet that holds the handle \<open>cmp\<close> it
  returns \<open>cmp\<close>, clears the handle and the route, takes the last view out of the
  container (the activated view, when that is the last one) and calls no \<^verbatim>\<open>destroy()\<close>;
  \<^verbatim>\<open>attach\<close> of the returned handle with any route, right afterwards, gives an activated
  outlet whose \<^verbatim>\<open>component\<close> is the one before the detach.
\<close>

theorem C5_detach:
  "(activated this = None \<longrightarrow> detach this = (Inl NotActivatedError, this))
   \<and> (\<forall>cmp. activated this = Some cmp \<longrightarrow>
          fst (detach this) = Inr cmp
        \<and> activated (snd (detach this)) = None
        \<and> u_activatedRoute (snd (detach this)) = None
        \<and> views (location (snd (detach this))) = butlast (views (location this))
        \<and> (views (location this) \<noteq> [] \<and> last (views (location this)) = hostView cmp \<longrightarrow>
             views (location this) = views (location (snd (detach this))) @ [hostView cmp])
        \<and> destroyed (location (snd (detach this))) = destroyed (location this)
        \<and> (\<forall>rt. isActivated (snd (attach cmp rt (snd (detach this)))) = Inr True
                \<and> component (snd (attach cmp rt (snd (detach this)))) = component this))"
  by (auto simp add: detach_def attach_def VCR_detach_def isActivated_def component_eq
        dest: append_butlast_last_id)

theorem C5_detach_witness:
  "activated ex_outlet = None \<and> activated ex_active = Some ex_cref
   \<and> views (location ex_active) \<noteq> []
   \<and> last (views (location ex_active)) = hostView ex_cref
   \<and> fst (detach ex_outlet) = Inl NotActivatedError
   \<and> fst (detach ex_active) = Inr ex_cref
   \<and> views (location ex_active) = [70]
   \<and> views (location (snd (detach ex_active))) = []
   \<and> isActivated (snd (attach ex_cref (ex_route None) (snd (detach ex_active)))) = Inr True
   \<and> component (snd (attach ex_cref (ex_route None) (snd (detach ex_active))))
       = Inr (Some (Component 7))"
  using C5_detach [of ex_outlet] C5_detach [of ex_active]
  by (simp add: ex_outlet_fields ex_active_fields ex_active_views component_eq ex_cref_def)

subsection \<open>What an activation does\<close>

lemma activateWith_active:
  "activated this \<noteq> None \<Longrightarrow> activateWith rt rs this = (Inl AlreadyActivatedError, this)"
  by (simp add: activateWith_def isActivated_def)

lemma activateWith_success:
  assumes "activateWith rt rs this = (Inr (), this')"
  shows "\<exists>cfg factory r hv ctx pc'.
      activated this = None
    \<and> routeConfig (futureSnapshot rt) = Some cfg
    \<and> (case rs of Some x \<Rightarrow> x | None \<Rightarrow> resolver this) (Route_component cfg) = Inr factory
    \<and> create factory = Inr (r, hv)
    \<and> getOrCreateContext (parentContexts this) (name this) = (ctx, pc')
    \<and> self this' = self this \<and> name this' = name this \<and> resolver this' = resolver this
    \<and> u_activatedRoute this' = Some rt
    \<and> parentContexts this' = pc'
    \<and> location this' = (location this)\<lparr>views := views (location this) @ [hv]\<rparr>
    \<and> changeDetector this' = markForCheck (changeDetector this)
    \<and> deactivateEvents this' = deactivateEvents this
    \<and> (if componentType factory = EmptyOutletComponent_Type
        then activated this' =
               Some (ComponentRef (Empty (subscribe_relay (self this) (new_EmptyOutletComponent r)))
                       hv (OutletInjector rt (children ctx) (loc_injector (location this))))
           \<and> activateEvents this' = activateEvents this
        else activated this' =
               Some (ComponentRef (Component r) hv
                       (OutletInjector rt (children ctx) (loc_injector (location this))))
           \<and> activateEvents this' = emit (Some r) (activateEvents this))"
  using assms
  by (auto simp: activateWith_def isActivated_def Let_def createComponent_def VCR_length_def
      split: option.splits sum.splits prod.splits bool.splits Instance.splits if_splits)

lemma activateWith_failure:
  assumes "activateWith rt rs this = (Inl e, this')"
  shows "(activated this \<noteq> None \<and> e = AlreadyActivatedError \<and> this' = this)
       \<or> (activated this = None \<and> activated this' = None \<and> u_activatedRoute this' = Some rt
          \<and> self this' = self this \<and> name this' = name this \<and> resolver this' = resolver this
          \<and> location this' = location this \<and> changeDetector this' = changeDetector this
          \<and> activateEvents this' = activateEvents this
          \<and> deactivateEvents this' = deactivateEvents this)"
  using assms
  by (auto simp: activateWith_def isActivated_def Let_def createComponent_def VCR_length_def
      split: option.splits sum.splits prod.splits bool.splits Instance.splits if_splits)

lemma activateWith_successE:
  assumes "activateWith rt rs this = (Inr (), this')"
  obtains cfg factory r hv ctx pc' where
      "activated this = None"
      "routeConfig (futureSnapshot rt) = Some cfg"
      "(case rs of Some x \<Rightarrow> x | None \<Rightarrow> resolver this) (Route_component cfg) = Inr factory"
      "create factory = Inr (r, hv)"
      "getOrCreateContext (parentContexts this) (name this) = (ctx, pc')"
      "self this' = self this" "name this' = name this" "resolver this' = resolver this"
      "u_activatedRoute this' = Some rt"
      "parentContexts this' = pc'"
      "location this' = (location this)\<lparr>views := views (location this) @ [hv]\<rparr>"
      "changeDetector this' = markForCheck (changeDetector this)"
      "deactivateEvents this' = deactivateEvents this"
      "if componentType factory = EmptyOutletComponent_Type
        then activated this' =
               Some (ComponentRef (Empty (subscribe_relay (self this) (new_EmptyOutletComponent r)))
                       hv (OutletInjector rt (children ctx) (loc_injector (location this))))
           \<and> activateEvents this' = activateEvents this
        else activated this' =
               Some (ComponentRef (Component r) hv
                       (OutletInjector rt (children ctx) (loc_injector (location this))))
           \<and> activateEvents this' = emit (Some r) (activateEvents this)"
  using activateWith_success [OF assms] by (elim exE conjE) (rule that; assumption)

lemma subscribe_relay_observers:
  "map snd (observers (e_activateEvents (subscribe_relay s (new_EmptyOutletComponent r))))
     = [EmitActivate s]"
  "map snd (observers (e_deactivateEvents (subscribe_relay s (new_EmptyOutletComponent r))))
     = [EmitDeactivate s]"
  "e_self (subscribe_relay s (new_EmptyOutletComponent r)) = r"
  by (simp_all add: subscribe_relay_def new_EmptyOutletComponent_def subscribe_def
      new_EventEmitter_def Let_def)

lemma ex_activate:
  "activateWith (ex_route (Some (Component_Type ''ViewA''))) None ex_outlet = (Inr (), ex_active)"
  by (simp add: ex_defs)

subsection \<open>The scoped dependency chain\<close>

text \<open>
  Claim C8: after a successful \<^verbatim>\<open>activateWith(rt, rs)\<close> the view handle carries the
  injector it was created with, and for every token that injector answers: the
  activated-route token with \<open>rt\<close>; the child-contexts token with the registry scope
  nested under the context of the outlet's own name; any other token with what the
  container's injector (the parent) answers for the same token and the same not-found
  value.
\<close>

theorem C8_OutletInjector:
  assumes "activateWith rt rs this = (Inr (), this')"
  shows "\<exists>cr ctx. activated this' = Some cr
     \<and> getContext (parentContexts this') (name this') = Some ctx
     \<and> (\<forall>nf. OutletInjector_get (injector cr) ActivatedRoute_token nf
              = Inr (Injected_ActivatedRoute rt))
     \<and> (\<forall>nf. OutletInjector_get (injector cr) ChildrenOutletContexts_token nf
              = Inr (Injected_ChildrenOutletContexts (children ctx)))
     \<and> (\<forall>s nf. OutletInjector_get (injector cr) (Other_token s) nf
              = map_sum id Injected_any (loc_injector (location this) (Other_token s) nf))"
  using assms
proof (rule activateWith_successE)
  fix cfg and factory :: ComponentFactory and r hv ctx pc'
  assume ctx: "getOrCreateContext (parentContexts this) (name this) = (ctx, pc')"
    and nm: "name this' = name this" and pc: "parentContexts this' = pc'"
    and act: "if componentType factory = EmptyOutletComponent_Type
        then activated this' =
               Some (ComponentRef (Empty (subscribe_relay (self this) (new_EmptyOutletComponent r)))
                       hv (OutletInjector rt (children ctx) (loc_injector (location this))))
           \<and> activateEvents this' = activateEvents this
        else activated this' =
               Some (ComponentRef (Component r) hv
                       (OutletInjector rt (children ctx) (loc_injector (location this))))
           \<and> activateEvents this' = emit (Some r) (activateEvents this)"
  from act obtain i where
    cr: "activated this' =
           Some (ComponentRef i hv (OutletInjector rt (children ctx) (loc_injector (location this))))"
    by (auto split: if_splits)
  have gc: "getContext (parentContexts this') (name this') = Some ctx"
    using getOrCreateContext_getContext [OF ctx] nm pc by simp
  show ?thesis
    using cr gc by (simp add: OutletInjector_get_def)
qed

theorem C8_OutletInjector_witness:
  "activateWith (ex_route (Some (Component_Type ''ViewA''))) None ex_outlet = (Inr (), ex_active)
   \<and> activated ex_active = Some ex_cref
   \<and> OutletInjector_get (injector ex_cref) ActivatedRoute_token None
        = Inr (Injected_ActivatedRoute (ex_route (Some (Component_Type ''ViewA''))))
   \<and> OutletInjector_get (injector ex_cref) ChildrenOutletContexts_token None
        = Inr (Injected_ChildrenOutletContexts (ChildrenOutletContexts []))
   \<and> OutletInjector_get (injector ex_cref) (Other_token ''Router'') (Some 5)
        = Inr (Injected_any 5)
   \<and> OutletInjector_get (injector ex_cref) (Other_token ''Router'') None
        = Inl (Error ''No provider'')"
  using C8_OutletInjector [OF ex_activate] ex_activate
  by (auto simp add: ex_active_fields ex_outlet_def new_RouterOutlet_def ex_location_def
        ex_injector_def ex_cref_def OutletInjector_get_def)

subsection \<open>A failed activation\<close>

lemma ex_broken:
  "fst (activateWith (ex_route (Some (Component_Type ''Broken''))) None ex_outlet)
     = Inl (Error ''constructor failed'')"
  by (simp add: ex_defs)

text \<open>
  Claim C1, as the spec states it, at an outlet that was just constructed, activated with
  a route for whose component the resolver finds no factory: the activation fails, and
  the outlet is not as it was, the route is recorded (\<^verbatim>\<open>activatedRouteData\<close> now returns
  its data).
\<close>

theorem C1_counterexample:
  "activated ex_outlet = None \<and> u_activatedRoute ex_outlet = None
   \<and> fst (activateWith (ex_route (Some (Component_Type ''Nope''))) None ex_outlet)
       = Inl (Error ''No component factory found'')
   \<and> u_activatedRoute (snd (activateWith (ex_route (Some (Component_Type ''Nope''))) None ex_outlet))
       = Some (ex_route (Some (Component_Type ''Nope'')))
   \<and> activatedRouteData (snd (activateWith (ex_route (Some (Component_Type ''Nope''))) None ex_outlet))
       = Inr [''title'' \<mapsto> ''A'']"
  by (simp add: ex_defs activatedRouteData_def)

text \<open>
  Claim C1, amended: \<^verbatim>\<open>activateWith\<close> on an outlet that holds a view handle always
  fails with the already-activated error and leaves the outlet as it was. When it fails
  on an outlet that holds none (the route has no configuration, the resolver finds no
  factory, creating the view throws), the outlet holds no view handle afterwards, the
  container, the two channels and the change detector are as before, and the route
  passed to it is recorded as the activated route.
\<close>

theorem C1_failed_activate:
  "(activated this \<noteq> None \<longrightarrow> activateWith rt rs this = (Inl AlreadyActivatedError, this))
   \<and> (\<forall>e. activated this = None \<and> fst (activateWith rt rs this) = Inl e \<longrightarrow>
          activated (snd (activateWith rt rs this)) = None
        \<and> u_activatedRoute (snd (activateWith rt rs this)) = Some rt
        \<and> location (snd (activateWith rt rs this)) = location this
        \<and> activateEvents (snd (activateWith rt rs this)) = activateEvents this
        \<and> deactivateEvents (snd (activateWith rt rs this)) = deactivateEvents this
        \<and> changeDetector (snd (activateWith rt rs this)) = changeDetector this)"
proof (intro conjI allI impI)
  assume "activated this \<noteq> None"
  then show "activateWith rt rs this = (Inl AlreadyActivatedError, this)"
    by (rule activateWith_active)
next
  fix e
  assume a: "activated this = None \<and> fst (activateWith rt rs this) = Inl e"
  then have "activateWith rt rs this = (Inl e, snd (activateWith rt rs this))"
    by (metis prod.collapse)
  from activateWith_failure [OF this] a
  have *: "activated (snd (activateWith rt rs this)) = None \<and>
      u_activatedRoute (snd (activateWith rt rs this)) = Some rt \<and>
      location (snd (activateWith rt rs this)) = location this \<and>
      changeDetector (snd (activateWith rt rs this)) = changeDetector this \<and>
      activateEvents (snd (activateWith rt rs this)) = activateEvents this \<and>
      deactivateEvents (snd (activateWith rt rs this)) = deactivateEvents this"
    by simp
  from * show "activated (snd (activateWith rt rs this)) = None" by simp
  from * show "u_activatedRoute (snd (activateWith rt rs this)) = Some rt" by simp
  from * show "location (snd (activateWith rt rs this)) = location this" by simp
  from * show "activateEvents (snd (activateWith rt rs this)) = activateEvents this" by simp
  from * show "deactivateEvents (snd (activateWith rt rs this)) = deactivateEvents this" by simp
  from * show "changeDetector (snd (activateWith rt rs this)) = changeDetector this" by simp
qed

theorem C1_failed_activate_witness:
  "activated ex_active \<noteq> None
   \<and> fst (activateWith (ex_route None) None ex_active) = Inl AlreadyActivatedError
   \<and> snd (activateWith (ex_route None) None ex_active) = ex_active
   \<and> activated ex_outlet = None
   \<and> fst (activateWith (ex_route (Some (Component_Type ''Broken''))) None ex_outlet)
       = Inl (Error ''constructor failed'')
   \<and> activated (snd (activateWith (ex_route (Some (Component_Type ''Broken''))) None ex_outlet))
       = None
   \<and> u_activatedRoute (snd (activateWith (ex_route (Some (Component_Type ''Broken''))) None ex_outlet))
       = Some (ex_route (Some (Component_Type ''Broken'')))
   \<and> views (location (snd (activateWith (ex_route (Some (Component_Type ''Broken''))) None ex_outlet)))
       = []"
  using C1_failed_activate [of ex_active "ex_route None" None]
    C1_failed_activate [of ex_outlet "ex_route (Some (Component_Type ''Broken''))" None]
    ex_broken
  by (simp add: ex_active_fields ex_outlet_fields ex_outlet_def new_RouterOutlet_def ex_location_def)

subsection \<open>Initialisation\<close>

text \<open>
  Claim C9: \<^verbatim>\<open>ngOnInit\<close> on an outlet that holds no view handle. If the registry has a
  context for the outlet's name with a route and a detached handle, it is \<^verbatim>\<open>attach\<close> of
  that handle with that route: it completes, and the outlet then holds the context's
  handle and route, with the handle's host view added at the end of the container, nothing
  destroyed and nothing emitted. If the context has a route and no detached handle, it is
  \<^verbatim>\<open>activateWith\<close> of that route with the context's resolver (none when the context has
  none): when it completes, the outlet holds the route and a handle created from the
  factory that the context's resolver, or else the outlet's own, gives for the route's
  component, with its host view added at the end of the container. If the registry has no
  context for the name, or the context has no route, it changes nothing.
\<close>

theorem C9_ngOnInit:
  assumes "activated this = None"
  shows "(\<forall>ctx rt aref. getContext (parentContexts this) (name this) = Some ctx
            \<and> c_route ctx = Some rt \<and> attachRef ctx = Some aref \<longrightarrow>
              ngOnInit this = attach aref rt this
            \<and> fst (ngOnInit this) = Inr ()
            \<and> activated (snd (ngOnInit this)) = Some aref
            \<and> u_activatedRoute (snd (ngOnInit this)) = Some rt
            \<and> views (location (snd (ngOnInit this))) = views (location this) @ [hostView aref]
            \<and> destroyed (location (snd (ngOnInit this))) = destroyed (location this)
            \<and> activateEvents (snd (ngOnInit this)) = activateEvents this
            \<and> deactivateEvents (snd (ngOnInit this)) = deactivateEvents this)
       \<and> (\<forall>ctx rt. getContext (parentContexts this) (name this) = Some ctx
            \<and> c_route ctx = Some rt \<and> attachRef ctx = None \<longrightarrow>
              ngOnInit this = activateWith rt (c_resolver ctx) this
            \<and> (fst (ngOnInit this) = Inr () \<longrightarrow>
                 (\<exists>cfg factory r hv cr.
                     routeConfig (futureSnapshot rt) = Some cfg
                   \<and> (case c_resolver ctx of Some x \<Rightarrow> x | None \<Rightarrow> resolver this)
                        (Route_component cfg) = Inr factory
                   \<and> create factory = Inr (r, hv)
                   \<and> activated (snd (ngOnInit this)) = Some cr
                   \<and> hostView cr = hv \<and> ident (c_instance cr) = r
                   \<and> u_activatedRoute (snd (ngOnInit this)) = Some rt
                   \<and> views (location (snd (ngOnInit this))) = views (location this) @ [hv])))
       \<and> (getContext (parentContexts this) (name this) = None \<longrightarrow> ngOnInit this = (Inr (), this))
       \<and> (\<forall>ctx. getContext (parentContexts this) (name this) = Some ctx \<and> c_route ctx = None \<longrightarrow>
            ngOnInit this = (Inr (), this))"
proof (intro conjI allI impI; (elim conjE)?)
  fix ctx rt aref
  assume c: "getContext (parentContexts this) (name this) = Some ctx"
    "c_route ctx = Some rt" "attachRef ctx = Some aref"
  with assms have e: "ngOnInit this = attach aref rt this" by (simp add: ngOnInit_def)
  show "ngOnInit this = attach aref rt this" by (rule e)
  show "fst (ngOnInit this) = Inr ()" by (simp add: e attach_def)
  show "activated (snd (ngOnInit this)) = Some aref" by (simp add: e attach_def)
  show "u_activatedRoute (snd (ngOnInit this)) = Some rt" by (simp add: e attach_def)
  show "views (location (snd (ngOnInit this))) = views (location this) @ [hostView aref]"
    by (simp add: e attach_def VCR_insert_def)
  show "destroyed (location (snd (ngOnInit this))) = destroyed (location this)"
    by (simp add: e attach_def VCR_insert_def)
  show "activateEvents (snd (ngOnInit this)) = activateEvents this" by (simp add: e attach_def)
  show "deactivateEvents (snd (ngOnInit this)) = deactivateEvents this" by (simp add: e attach_def)
next
  fix ctx rt
  assume c: "getContext (parentContexts this) (name this) = Some ctx"
    "c_route ctx = Some rt" "attachRef ctx = None"
  with assms show e: "ngOnInit this = activateWith rt (c_resolver ctx) this"
    by (simp add: ngOnInit_def)
  assume "fst (ngOnInit this) = Inr ()"
  with e have "activateWith rt (c_resolver ctx) this = (Inr (), snd (ngOnInit this))"
    by (metis prod.collapse)
  then show "\<exists>cfg factory r hv cr.
                     routeConfig (futureSnapshot rt) = Some cfg
                   \<and> (case c_resolver ctx of Some x \<Rightarrow> x | None \<Rightarrow> resolver this)
                        (Route_component cfg) = Inr factory
                   \<and> create factory = Inr (r, hv)
                   \<and> activated (snd (ngOnInit this)) = Some cr
                   \<and> hostView cr = hv \<and> ident (c_instance cr) = r
                   \<and> u_activatedRoute (snd (ngOnInit this)) = Some rt
                   \<and> views (location (snd (ngOnInit this))) = views (location this) @ [hv]"
  proof (rule activateWith_successE)
    fix cfg and factory :: ComponentFactory and r hv ctx' pc'
    assume cfg: "routeConfig (futureSnapshot rt) = Some cfg"
      and fac: "(case c_resolver ctx of Some x \<Rightarrow> x | None \<Rightarrow> resolver this)
                  (Route_component cfg) = Inr factory"
      and cre: "create factory = Inr (r, hv)"
      and rt: "u_activatedRoute (snd (ngOnInit this)) = Some rt"
      and loc: "location (snd (ngOnInit this))
                  = (location this)\<lparr>views := views (location this) @ [hv]\<rparr>"
      and act: "if componentType factory = EmptyOutletComponent_Type
        then activated (snd (ngOnInit this)) =
               Some (ComponentRef (Empty (subscribe_relay (self this) (new_EmptyOutletComponent r)))
                       hv (OutletInjector rt (children ctx') (loc_injector (location this))))
           \<and> activateEvents (snd (ngOnInit this)) = activateEvents this
        else activated (snd (ngOnInit this)) =
               Some (ComponentRef (Component r) hv
                       (OutletInjector rt (children ctx') (loc_injector (location this))))
           \<and> activateEvents (snd (ngOnInit this)) = emit (Some r) (activateEvents this)"
    from act obtain cr where "activated (snd (ngOnInit this)) = Some cr" "hostView cr = hv"
      "ident (c_instance cr) = r"
      by (auto simp: subscribe_relay_observers split: if_splits)
    with cfg fac cre rt loc show ?thesis by auto
  qed
next
  assume "getContext (parentContexts this) (name this) = None"
  with assms show "ngOnInit this = (Inr (), this)" by (simp add: ngOnInit_def)
next
  fix ctx
  assume "getContext (parentContexts this) (name this) = Some ctx" "c_route ctx = None"
  with assms show "ngOnInit this = (Inr (), this)" by (simp add: ngOnInit_def)
qed

lemma ex_lazy_contexts:
  "activated ex_lazy_attach = None"
  "getContext (parentContexts ex_lazy_attach) (name ex_lazy_attach)
     = Some (set_c_outlet (Some 1) ex_ctx_attach)"
  "activated ex_lazy_pending = None"
  "getContext (parentContexts ex_lazy_pending) (name ex_lazy_pending)
     = Some (set_c_outlet (Some 1) ex_ctx_pending)"
  "activated ex_unregistered = None"
  "getContext (parentContexts ex_unregistered) (name ex_unregistered) = None"
  "getContext (parentContexts ex_outlet) (name ex_outlet)
     = Some (OutletContext (Some 1) None None (ChildrenOutletContexts []) None)"
  by (simp_all add: ex_lazy_attach_def ex_lazy_pending_def ex_unregistered_def ex_outlet_def
      new_RouterOutlet_def onChildOutletCreated_def getOrCreateContext_def getContext_def
      put_context_def PRIMARY_OUTLET_def set_c_outlet_def new_OutletContext_def Let_def)

lemma ex_pending_created:
  "map_option c_instance
     (activated (snd (activateWith (ex_route (Some (Component_Type ''ViewA''))) (Some ex_override)
                        ex_lazy_pending)))
   = Some (Component 9)"
  by (simp add: ex_lazy_pending_def ex_ctx_pending_def ex_override_def ex_defs)

lemma ex_ctx_fields:
  "c_route (set_c_outlet (Some 1) ex_ctx_attach) = Some (ex_route (Some (Component_Type ''ViewA'')))"
  "attachRef (set_c_outlet (Some 1) ex_ctx_attach) = Some ex_cref"
  "c_route (set_c_outlet (Some 1) ex_ctx_pending) = Some (ex_route (Some (Component_Type ''ViewA'')))"
  "attachRef (set_c_outlet (Some 1) ex_ctx_pending) = None"
  "c_resolver (set_c_outlet (Some 1) ex_ctx_pending) = Some ex_override"
  by (simp_all add: set_c_outlet_def ex_ctx_attach_def ex_ctx_pending_def)

lemma ex_lazy_views:
  "views (location ex_lazy_attach) = []" "views (location ex_lazy_pending) = []"
  "hostView ex_cref = 70"
  by (simp_all add: ex_lazy_attach_def ex_lazy_pending_def new_RouterOutlet_def ex_location_def
      ex_cref_def Let_def)

lemma ex_pending_completes:
  "fst (activateWith (ex_route (Some (Component_Type ''ViewA''))) (Some ex_override)
          ex_lazy_pending) = Inr ()"
  by (simp add: ex_lazy_pending_def ex_ctx_pending_def ex_override_def ex_defs)

theorem C9_ngOnInit_witness:
  "activated ex_lazy_attach = None
   \<and> getContext (parentContexts ex_lazy_attach) (name ex_lazy_attach)
       = Some (set_c_outlet (Some 1) ex_ctx_attach)
   \<and> ngOnInit ex_lazy_attach
       = attach ex_cref (ex_route (Some (Component_Type ''ViewA''))) ex_lazy_attach
   \<and> fst (ngOnInit ex_lazy_attach) = Inr ()
   \<and> activated (snd (ngOnInit ex_lazy_attach)) = Some ex_cref
   \<and> u_activatedRoute (snd (ngOnInit ex_lazy_attach))
       = Some (ex_route (Some (Component_Type ''ViewA'')))
   \<and> views (location (snd (ngOnInit ex_lazy_attach))) = [70]
   \<and> activated ex_lazy_pending = None
   \<and> getContext (parentContexts ex_lazy_pending) (name ex_lazy_pending)
       = Some (set_c_outlet (Some 1) ex_ctx_pending)
   \<and> ngOnInit ex_lazy_pending
       = activateWith (ex_route (Some (Component_Type ''ViewA''))) (Some ex_override) ex_lazy_pending
   \<and> fst (ngOnInit ex_lazy_pending) = Inr ()
   \<and> map_option c_instance (activated (snd (ngOnInit ex_lazy_pending))) = Some (Component 9)
   \<and> u_activatedRoute (snd (ngOnInit ex_lazy_pending))
       = Some (ex_route (Some (Component_Type ''ViewA'')))
   \<and> views (location (snd (ngOnInit ex_lazy_pending))) = [90]
   \<and> activated ex_unregistered = None
   \<and> getContext (parentContexts ex_unregistered) (name ex_unregistered) = None
   \<and> ngOnInit ex_unregistered = (Inr (), ex_unregistered)
   \<and> activated ex_outlet = None
   \<and> getContext (parentContexts ex_outlet) (name ex_outlet)
       = Some (OutletContext (Some 1) None None (ChildrenOutletContexts []) None)
   \<and> ngOnInit ex_outlet = (Inr (), ex_outlet)"
proof -
  let ?rA = "ex_route (Some (Component_Type ''ViewA''))"
  note a0 = C9_ngOnInit [OF ex_lazy_contexts(1), THEN conjunct1, rule_format,
      OF conjI [OF ex_lazy_contexts(2) conjI [OF ex_ctx_fields(1) ex_ctx_fields(2)]]]
  from a0 have a: "ngOnInit ex_lazy_attach = attach ex_cref ?rA ex_lazy_attach"
    "fst (ngOnInit ex_lazy_attach) = Inr ()"
    "activated (snd (ngOnInit ex_lazy_attach)) = Some ex_cref"
    "u_activatedRoute (snd (ngOnInit ex_lazy_attach)) = Some ?rA"
    by blast+
  from a0 have "views (location (snd (ngOnInit ex_lazy_attach)))
      = views (location ex_lazy_attach) @ [hostView ex_cref]"
    by blast
  then have a': "views (location (snd (ngOnInit ex_lazy_attach))) = [70]"
    by (simp only: ex_lazy_views append_Nil)
  note p = C9_ngOnInit [OF ex_lazy_contexts(3), THEN conjunct2, THEN conjunct1, rule_format,
      OF conjI [OF ex_lazy_contexts(4) conjI [OF ex_ctx_fields(3) ex_ctx_fields(4)]],
      unfolded ex_ctx_fields(5) option.case]
  from p have b: "ngOnInit ex_lazy_pending = activateWith ?rA (Some ex_override) ex_lazy_pending"
    by blast
  with ex_pending_completes have ok: "fst (ngOnInit ex_lazy_pending) = Inr ()" by simp
  with p obtain cfg and factory :: ComponentFactory and r hv cr where
    "routeConfig (futureSnapshot ?rA) = Some cfg"
    "ex_override (Route_component cfg) = Inr factory"
    "create factory = Inr (r, hv)"
    and q: "activated (snd (ngOnInit ex_lazy_pending)) = Some cr"
    "hostView cr = hv" "ident (c_instance cr) = r"
    "u_activatedRoute (snd (ngOnInit ex_lazy_pending)) = Some ?rA"
    "views (location (snd (ngOnInit ex_lazy_pending))) = views (location ex_lazy_pending) @ [hv]"
    by blast
  then have "r = 9" "hv = 90"
    by (auto simp: ex_route_def ex_override_def split: if_splits)
  with q have c: "views (location (snd (ngOnInit ex_lazy_pending))) = [90]"
    by (simp add: ex_lazy_views)
  have d: "map_option c_instance (activated (snd (ngOnInit ex_lazy_pending))) = Some (Component 9)"
    using ex_pending_created by (simp add: b)
  from C9_ngOnInit [OF ex_lazy_contexts(5)] ex_lazy_contexts(6)
  have e: "ngOnInit ex_unregistered = (Inr (), ex_unregistered)" by simp
  from C9_ngOnInit [OF ex_outlet_fields(1)] ex_lazy_contexts(7)
  have f: "ngOnInit ex_outlet = (Inr (), ex_outlet)" by simp
  show ?thesis
    by (intro conjI)
      (rule ex_lazy_contexts ex_outlet_fields a a' b ok d q(4) c e f)+
qed

subsection \<open>Deactivation\<close>

lemmas ex_proxy_defs = ex_defs deactivate_def ComponentRef_destroy_def EOC_activate_def
  component_eq EOC_component_eq

text \<open>
  Whenever \<^verbatim>\<open>deactivate\<close> completes on an outlet that holds a view handle, it emits the
  captured component: the captured value is the result of the getter \<^verbatim>\<open>component\<close>,
  which is never a placeholder, so the test of line 155 always succeeds.
\<close>

lemma deactivate_emits:
  assumes "activated this = Some a" and "fst (deactivate this) = Inr ()"
  shows "\<exists>c. component this = Inr c
     \<and> emitted (deactivateEvents (snd (deactivate this)))
         = emitted (deactivateEvents this) @ [map_option ident c]
     \<and> activated (snd (deactivate this)) = None
     \<and> u_activatedRoute (snd (deactivate this)) = None
     \<and> destroyed (location (snd (deactivate this))) = destroyed (location this) @ [hostView a]"
proof (cases "component this")
  case (Inl e)
  with assms show ?thesis by (simp add: deactivate_def)
next
  case (Inr c)
  with component_never_placeholder(1) [of this]
  have "\<not> instanceof_EmptyOutletComponent c" by simp
  with assms Inr show ?thesis
    by (simp add: deactivate_def Let_def emit_def ComponentRef_destroy_def)
qed

lemma deactivate_inactive: "activated this = None \<Longrightarrow> deactivate this = (Inr (), this)"
  by (simp add: deactivate_def)

lemma deactivate_throws:
  "activated this = Some a \<Longrightarrow> component this = Inl e \<Longrightarrow> deactivate this = (Inl e, this)"
  by (simp add: deactivate_def)

text \<open>
  Claim C2 at the outlet 1 that holds a placeholder whose nested outlet 2 is activated
  with the component 7: \<^verbatim>\<open>deactivate\<close> captures the nested component, destroys the view (host
  view 80), clears handle and route, and emits a deactivate notification with the captured
  component 7. The claim, and the comment of lines 153 and 154, say that nothing is emitted
  for a placeholder.
\<close>

theorem C2_deactivate_placeholder_emits:
  "instanceof_EmptyOutletComponent (map_option c_instance (activated ex_proxy_active))
   \<and> component ex_proxy_active = Inr (Some (Component 7))
   \<and> emitted (deactivateEvents ex_proxy_active) = []
   \<and> fst (deactivate ex_proxy_active) = Inr ()
   \<and> activated (snd (deactivate ex_proxy_active)) = None
   \<and> u_activatedRoute (snd (deactivate ex_proxy_active)) = None
   \<and> destroyed (location (snd (deactivate ex_proxy_active))) = [80]
   \<and> emitted (deactivateEvents (snd (deactivate ex_proxy_active))) = [Some 7]"
  by (simp add: ex_proxy_defs)

subsection \<open>The placeholder's accessors\<close>

lemma component_inactive: "activated this = None \<Longrightarrow> component this = Inl NotActivatedError"
  by (simp add: component_eq)

lemma ex_proxy_instances:
  "map_option c_instance (activated ex_proxy_fresh) = Some (Empty (ex_placeholder None))"
  "map_option c_instance (activated ex_proxy_idle) = Some (Empty (ex_placeholder (Some ex_nested)))"
  by (simp_all add: ex_defs)

lemma ex_nested_fields:
  "activated ex_nested = None" "u_activatedRoute ex_nested = None"
  "activated ex_nested_active \<noteq> None"
  "u_activatedRoute ex_nested_active = Some (ex_route (Some (Component_Type ''ViewA'')))"
  "component ex_nested_active = Inr (Some (Component 7))"
  by (simp_all add: ex_defs component_eq)

lemma ex_proxy_idle_component: "component ex_proxy_idle = Inl NotActivatedError"
  by (simp add: ex_proxy_defs)

lemma ex_activate_proxy:
  "activateWith (ex_route (Some EmptyOutletComponent_Type)) None ex_outlet = (Inr (), ex_proxy_fresh)"
  by (simp add: ex_defs)

lemma ex_proxy_fresh_activated:
  "activated ex_proxy_fresh =
     Some (ComponentRef (Empty (ex_placeholder None)) 80
             (OutletInjector (ex_route (Some EmptyOutletComponent_Type)) (ChildrenOutletContexts [])
                ex_injector))"
  by (simp add: ex_defs)

lemma activateWith_placeholder:
  assumes "activateWith rt rs this = (Inr (), this')"
    and "activated this' = Some (ComponentRef (Empty p) hv ij)"
  shows "outlet p = None" and "component this' = Inr None"
proof -
  from assms(1) have "\<exists>r. p = subscribe_relay (self this) (new_EmptyOutletComponent r)"
  proof (rule activateWith_successE)
    fix cfg and factory :: ComponentFactory and r hv' ctx pc'
    assume "if componentType factory = EmptyOutletComponent_Type
        then activated this' =
               Some (ComponentRef (Empty (subscribe_relay (self this) (new_EmptyOutletComponent r)))
                       hv' (OutletInjector rt (children ctx) (loc_injector (location this))))
           \<and> activateEvents this' = activateEvents this
        else activated this' =
               Some (ComponentRef (Component r) hv'
                       (OutletInjector rt (children ctx) (loc_injector (location this))))
           \<and> activateEvents this' = emit (Some r) (activateEvents this)"
    with assms(2) show ?thesis by (auto split: if_splits)
  qed
  then show "outlet p = None"
    by (auto simp: subscribe_relay_def new_EmptyOutletComponent_def subscribe_def Let_def)
  with assms(2) show "component this' = Inr None"
    by (simp add: component_eq EOC_component_eq)
qed

text \<open>
  Claim C7, as the spec states it, at the outlet 1 that activated a route with no view of
  its own and holds the placeholder, whose nested outlet 2 exists and is not activated
  yet: the three accessors of the placeholder fail with the not-activated error of the
  nested outlet, and so does \<^verbatim>\<open>component\<close> of the owning outlet, instead of returning the
  empty sentinel.
\<close>

theorem C7_counterexample:
  "map_option c_instance (activated ex_proxy_idle) = Some (Empty (ex_placeholder (Some ex_nested)))
   \<and> outlet (ex_placeholder (Some ex_nested)) = Some ex_nested
   \<and> isActivated ex_nested = Inr False
   \<and> EOC_component (ex_placeholder (Some ex_nested)) = Inl NotActivatedError
   \<and> EOC_activatedRoute (ex_placeholder (Some ex_nested)) = Inl NotActivatedError
   \<and> EOC_activatedRouteData (ex_placeholder (Some ex_nested)) = Inl NotActivatedError
   \<and> component ex_proxy_idle = Inl NotActivatedError"
  by (simp add: ex_proxy_instances ex_nested_fields isActivated_def EOC_component_eq
      EOC_activatedRoute_def EOC_activatedRouteData_def activatedRoute_def component_inactive
      ex_placeholder_def ex_proxy_idle_component)

text \<open>
  Claim C7, amended: while the placeholder's reference to its nested outlet is not set,
  \<^verbatim>\<open>component\<close> and \<^verbatim>\<open>activatedRoute\<close> return \<^verbatim>\<open>null\<close> and \<^verbatim>\<open>activatedRouteData\<close> the empty
  data object. Once it is set, \<^verbatim>\<open>component\<close> and \<^verbatim>\<open>activatedRoute\<close> are the nested outlet's
  accessors, so all three fail with the not-activated error while the nested outlet is
  not activated, and \<^verbatim>\<open>activatedRouteData\<close> is the data of the nested outlet's route when it
  is. Right after a successful \<^verbatim>\<open>activateWith\<close> that produced a placeholder, the reference is
  not set and \<^verbatim>\<open>component\<close> of the owning outlet returns \<^verbatim>\<open>null\<close>.
\<close>

theorem C7_placeholder_accessors:
  "(outlet c = None \<longrightarrow>
       EOC_component c = Inr None \<and> EOC_activatedRoute c = Inr None
     \<and> EOC_activatedRouteData c = Inr Map.empty)
   \<and> (\<forall>out. outlet c = Some out \<longrightarrow>
          EOC_component c = component out \<and> EOC_activatedRoute c = activatedRoute out
        \<and> (activated out = None \<longrightarrow>
              EOC_component c = Inl NotActivatedError
            \<and> EOC_activatedRoute c = Inl NotActivatedError
            \<and> EOC_activatedRouteData c = Inl NotActivatedError)
        \<and> (\<forall>r. activated out \<noteq> None \<and> u_activatedRoute out = Some r \<longrightarrow>
              EOC_activatedRouteData c = Inr (data (snapshot r))))
   \<and> (\<forall>rt rs this this' p hv ij.
          activateWith rt rs this = (Inr (), this')
        \<and> activated this' = Some (ComponentRef (Empty p) hv ij) \<longrightarrow>
          outlet p = None \<and> component this' = Inr None)"
  by (auto simp add: EOC_component_eq EOC_activatedRoute_def EOC_activatedRouteData_def
      activatedRoute_def component_inactive dest: activateWith_placeholder)

theorem C7_placeholder_accessors_witness:
  "outlet (ex_placeholder None) = None
   \<and> EOC_component (ex_placeholder None) = Inr None
   \<and> EOC_activatedRoute (ex_placeholder None) = Inr None
   \<and> EOC_activatedRouteData (ex_placeholder None) = Inr Map.empty
   \<and> outlet (ex_placeholder (Some ex_nested)) = Some ex_nested
   \<and> activated ex_nested = None
   \<and> EOC_component (ex_placeholder (Some ex_nested)) = Inl NotActivatedError
   \<and> EOC_activatedRoute (ex_placeholder (Some ex_nested)) = Inl NotActivatedError
   \<and> EOC_activatedRouteData (ex_placeholder (Some ex_nested)) = Inl NotActivatedError
   \<and> outlet (ex_placeholder (Some ex_nested_active)) = Some ex_nested_active
   \<and> activated ex_nested_active \<noteq> None
   \<and> u_activatedRoute ex_nested_active = Some (ex_route (Some (Component_Type ''ViewA'')))
   \<and> EOC_component (ex_placeholder (Some ex_nested_active)) = Inr (Some (Component 7))
   \<and> EOC_activatedRouteData (ex_placeholder (Some ex_nested_active)) = Inr [''title'' \<mapsto> ''A'']
   \<and> activateWith (ex_route (Some EmptyOutletComponent_Type)) None ex_outlet
        = (Inr (), ex_proxy_fresh)
   \<and> map_option c_instance (activated ex_proxy_fresh) = Some (Empty (ex_placeholder None))
   \<and> component ex_proxy_fresh = Inr None"
proof -
  have o: "outlet (ex_placeholder x) = x" for x
    by (simp add: ex_placeholder_def)
  have d: "data (snapshot (ex_route t)) = [''title'' \<mapsto> ''A'']" for t
    by (simp add: ex_route_def)
  from C7_placeholder_accessors [of "ex_placeholder None"]
  have 1: "EOC_component (ex_placeholder None) = Inr None
      \<and> EOC_activatedRoute (ex_placeholder None) = Inr None
      \<and> EOC_activatedRouteData (ex_placeholder None) = Inr Map.empty"
    by (simp add: o)
  from C7_placeholder_accessors [of "ex_placeholder (Some ex_nested)"]
  have 2: "EOC_component (ex_placeholder (Some ex_nested)) = Inl NotActivatedError
      \<and> EOC_activatedRoute (ex_placeholder (Some ex_nested)) = Inl NotActivatedError
      \<and> EOC_activatedRouteData (ex_placeholder (Some ex_nested)) = Inl NotActivatedError"
    by (simp add: o ex_nested_fields component_inactive activatedRoute_def)
  from C7_placeholder_accessors [of "ex_placeholder (Some ex_nested_active)"]
  have 3: "EOC_component (ex_placeholder (Some ex_nested_active)) = Inr (Some (Component 7))
      \<and> EOC_activatedRouteData (ex_placeholder (Some ex_nested_active))
          = Inr [''title'' \<mapsto> ''A'']"
    by (simp add: o d ex_nested_fields)
  from C7_placeholder_accessors [THEN conjunct2, THEN conjunct2, rule_format,
      OF conjI [OF ex_activate_proxy ex_proxy_fresh_activated]]
  have 4: "component ex_proxy_fresh = Inr None" by simp
  from 1 2 3 4 show ?thesis
    by (simp add: o ex_nested_fields ex_activate_proxy ex_proxy_instances)
qed

subsection \<open>A successful activation\<close>

lemma activations_Cons: "activations (e # es) = activations [e] @ activations es"
  by (cases e) simp_all

lemma deactivations_Cons: "deactivations (e # es) = deactivations [e] @ deactivations es"
  by (cases e) simp_all

lemma relay_step:
  assumes "activated t = Some (ComponentRef (Empty c) hv ij)"
    and "map snd (observers (e_activateEvents c)) = [EmitActivate (self t)]"
    and "map snd (observers (e_deactivateEvents c)) = [EmitDeactivate (self t)]"
  shows "\<exists>c'. activated (EOC_handle e t) = Some (ComponentRef (Empty c') hv ij)
            \<and> observers (e_activateEvents c') = observers (e_activateEvents c)
            \<and> observers (e_deactivateEvents c') = observers (e_deactivateEvents c)"
    and "self (EOC_handle e t) = self t"
    and "emitted (activateEvents (EOC_handle e t)) = emitted (activateEvents t) @ activations [e]"
    and "emitted (deactivateEvents (EOC_handle e t))
           = emitted (deactivateEvents t) @ deactivations [e]"
  using assms
  by (cases e; simp add: EOC_activate_def EOC_deactivate_def emit_def Let_def)+

lemma relay_run:
  assumes "activated t = Some (ComponentRef (Empty c) hv ij)"
    and "map snd (observers (e_activateEvents c)) = [EmitActivate (self t)]"
    and "map snd (observers (e_deactivateEvents c)) = [EmitDeactivate (self t)]"
  shows "emitted (activateEvents (foldl (\<lambda>t e. EOC_handle e t) t evs))
           = emitted (activateEvents t) @ activations evs
       \<and> emitted (deactivateEvents (foldl (\<lambda>t e. EOC_handle e t) t evs))
           = emitted (deactivateEvents t) @ deactivations evs"
  using assms
proof (induction evs arbitrary: t c)
  case Nil
  then show ?case by simp
next
  case (Cons e es)
  from relay_step [OF Cons.prems, of e] obtain c' where
    a: "activated (EOC_handle e t) = Some (ComponentRef (Empty c') hv ij)"
    and o1: "observers (e_activateEvents c') = observers (e_activateEvents c)"
    and o2: "observers (e_deactivateEvents c') = observers (e_deactivateEvents c)"
    and s: "self (EOC_handle e t) = self t"
    and e1: "emitted (activateEvents (EOC_handle e t)) = emitted (activateEvents t) @ activations [e]"
    and e2: "emitted (deactivateEvents (EOC_handle e t))
           = emitted (deactivateEvents t) @ deactivations [e]"
    by blast
  have "emitted (activateEvents (foldl (\<lambda>t e. EOC_handle e t) (EOC_handle e t) es))
           = emitted (activateEvents (EOC_handle e t)) @ activations es
       \<and> emitted (deactivateEvents (foldl (\<lambda>t e. EOC_handle e t) (EOC_handle e t) es))
           = emitted (deactivateEvents (EOC_handle e t)) @ deactivations es"
    using Cons.prems(2,3) by (intro Cons.IH [OF a]) (simp_all add: o1 o2 s)
  then show ?case
    by (simp add: e1 e2 activations_Cons [of e es] deactivations_Cons [of e es])
qed

text \<open>
  Claim C4: a successful \<^verbatim>\<open>activateWith(rt, rs)\<close> asks the resolver \<open>rs\<close>, or the outlet's own
  when \<open>rs\<close> is \<^verbatim>\<open>null\<close>, for the factory of the component of the route's configuration,
  creates the view from it with the injector built from \<open>rt\<close> and the container's injector,
  and adds its host view at the end of the container's views. If the created instance is
  not a placeholder, exactly one activate notification is emitted, with that instance. If
  it is a placeholder, nothing is emitted, and from then on every event that the
  placeholder's \<^verbatim>\<open>activate\<close> or \<^verbatim>\<open>deactivate\<close> receives is emitted once on the outlet's channel
  of the same kind. Nothing is emitted on the deactivate channel by the activation.
\<close>

theorem C4_activateWith:
  assumes "activateWith rt rs this = (Inr (), this')"
  shows "\<exists>cfg factory r hv cr.
      routeConfig (futureSnapshot rt) = Some cfg
    \<and> (case rs of Some x \<Rightarrow> x | None \<Rightarrow> resolver this) (Route_component cfg) = Inr factory
    \<and> create factory = Inr (r, hv)
    \<and> activated this' = Some cr \<and> hostView cr = hv \<and> ident (c_instance cr) = r
    \<and> route (injector cr) = rt \<and> parent (injector cr) = loc_injector (location this)
    \<and> views (location this') = views (location this) @ [hv]
    \<and> emitted (deactivateEvents this') = emitted (deactivateEvents this)
    \<and> (\<not> instanceof_EmptyOutletComponent (Some (c_instance cr)) \<longrightarrow>
         emitted (activateEvents this') = emitted (activateEvents this) @ [Some r])
    \<and> (instanceof_EmptyOutletComponent (Some (c_instance cr)) \<longrightarrow>
         emitted (activateEvents this') = emitted (activateEvents this)
       \<and> (\<forall>evs. emitted (activateEvents (foldl (\<lambda>t e. EOC_handle e t) this' evs))
                   = emitted (activateEvents this') @ activations evs
               \<and> emitted (deactivateEvents (foldl (\<lambda>t e. EOC_handle e t) this' evs))
                   = emitted (deactivateEvents this') @ deactivations evs))"
  using assms
proof (rule activateWith_successE)
  fix cfg and factory :: ComponentFactory and r hv ctx pc'
  assume cfg: "routeConfig (futureSnapshot rt) = Some cfg"
    and fac: "(case rs of Some x \<Rightarrow> x | None \<Rightarrow> resolver this) (Route_component cfg) = Inr factory"
    and cre: "create factory = Inr (r, hv)"
    and slf: "self this' = self this"
    and loc: "location this' = (location this)\<lparr>views := views (location this) @ [hv]\<rparr>"
    and de: "deactivateEvents this' = deactivateEvents this"
    and act: "if componentType factory = EmptyOutletComponent_Type
        then activated this' =
               Some (ComponentRef (Empty (subscribe_relay (self this) (new_EmptyOutletComponent r)))
                       hv (OutletInjector rt (children ctx) (loc_injector (location this))))
           \<and> activateEvents this' = activateEvents this
        else activated this' =
               Some (ComponentRef (Component r) hv
                       (OutletInjector rt (children ctx) (loc_injector (location this))))
           \<and> activateEvents this' = emit (Some r) (activateEvents this)"
  show ?thesis
  proof (cases "componentType factory = EmptyOutletComponent_Type")
    case True
    let ?p = "subscribe_relay (self this) (new_EmptyOutletComponent r)"
    let ?cr = "ComponentRef (Empty ?p) hv
                 (OutletInjector rt (children ctx) (loc_injector (location this)))"
    from True act have a: "activated this' = Some ?cr"
      and ae: "activateEvents this' = activateEvents this" by simp_all
    have run: "emitted (activateEvents (foldl (\<lambda>t e. EOC_handle e t) this' evs))
                   = emitted (activateEvents this') @ activations evs
               \<and> emitted (deactivateEvents (foldl (\<lambda>t e. EOC_handle e t) this' evs))
                   = emitted (deactivateEvents this') @ deactivations evs" for evs
      by (rule relay_run [OF a]) (simp_all add: subscribe_relay_observers slf)
    show ?thesis
      apply (rule exI [of _ cfg], rule exI [of _ factory], rule exI [of _ r],
          rule exI [of _ hv], rule exI [of _ ?cr])
      using cfg fac cre a ae de loc run
      by (simp add: subscribe_relay_observers)
  next
    case False
    let ?cr = "ComponentRef (Component r) hv
                 (OutletInjector rt (children ctx) (loc_injector (location this)))"
    from False act have a: "activated this' = Some ?cr"
      and ae: "activateEvents this' = emit (Some r) (activateEvents this)" by simp_all
    show ?thesis
      apply (rule exI [of _ cfg], rule exI [of _ factory], rule exI [of _ r],
          rule exI [of _ hv], rule exI [of _ ?cr])
      using cfg fac cre a ae de loc
      by (simp add: emit_def)
  qed
qed

theorem C4_activateWith_witness:
  "activateWith (ex_route (Some (Component_Type ''ViewA''))) None ex_outlet = (Inr (), ex_active)
   \<and> \<not> instanceof_EmptyOutletComponent (map_option c_instance (activated ex_active))
   \<and> emitted (activateEvents ex_outlet) = []
   \<and> emitted (activateEvents ex_active) = [Some 7]
   \<and> views (location ex_active) = [70]
   \<and> activateWith (ex_route (Some EmptyOutletComponent_Type)) None ex_outlet
        = (Inr (), ex_proxy_fresh)
   \<and> instanceof_EmptyOutletComponent (map_option c_instance (activated ex_proxy_fresh))
   \<and> emitted (activateEvents ex_proxy_fresh) = []
   \<and> emitted (activateEvents
        (foldl (\<lambda>t e. EOC_handle e t) ex_proxy_fresh
           [Activate_event (Some 7), Deactivate_event (Some 7)])) = [Some 7]
   \<and> emitted (deactivateEvents
        (foldl (\<lambda>t e. EOC_handle e t) ex_proxy_fresh
           [Activate_event (Some 7), Deactivate_event (Some 7)])) = [Some 7]"
proof -
  have e0: "emitted (activateEvents ex_outlet) = []" "emitted (deactivateEvents ex_outlet) = []"
    "views (location ex_outlet) = []"
    by (simp_all add: ex_outlet_def new_RouterOutlet_def new_EventEmitter_def ex_location_def)
  from C4_activateWith [OF ex_activate] obtain cr r hv where
    a: "activated ex_active = Some cr" and h: "hostView cr = hv" and i: "ident (c_instance cr) = r"
    and v: "views (location ex_active) = views (location ex_outlet) @ [hv]"
    and e: "\<not> instanceof_EmptyOutletComponent (Some (c_instance cr)) \<longrightarrow>
         emitted (activateEvents ex_active) = emitted (activateEvents ex_outlet) @ [Some r]"
    by blast
  from a ex_active_fields(1) have cr: "cr = ex_cref" by simp
  from e i h v have 1: "emitted (activateEvents ex_active) = [Some 7]"
    "views (location ex_active) = [70]"
    by (simp_all add: cr ex_cref_def e0)
  from C4_activateWith [OF ex_activate_proxy] obtain cr' where
    a': "activated ex_proxy_fresh = Some cr'"
    and e': "instanceof_EmptyOutletComponent (Some (c_instance cr')) \<longrightarrow>
         emitted (activateEvents ex_proxy_fresh) = emitted (activateEvents ex_outlet)
       \<and> (\<forall>evs. emitted (activateEvents (foldl (\<lambda>t e. EOC_handle e t) ex_proxy_fresh evs))
                   = emitted (activateEvents ex_proxy_fresh) @ activations evs
               \<and> emitted (deactivateEvents (foldl (\<lambda>t e. EOC_handle e t) ex_proxy_fresh evs))
                   = emitted (deactivateEvents ex_proxy_fresh) @ deactivations evs)"
    and d': "emitted (deactivateEvents ex_proxy_fresh) = emitted (deactivateEvents ex_outlet)"
    by blast
  from a' ex_proxy_fresh_activated have p: "instanceof_EmptyOutletComponent (Some (c_instance cr'))"
    by auto
  from e' p have 2: "emitted (activateEvents ex_proxy_fresh) = []"
    and r: "emitted (activateEvents (foldl (\<lambda>t e. EOC_handle e t) ex_proxy_fresh evs))
                   = emitted (activateEvents ex_proxy_fresh) @ activations evs
               \<and> emitted (deactivateEvents (foldl (\<lambda>t e. EOC_handle e t) ex_proxy_fresh evs))
                   = emitted (deactivateEvents ex_proxy_fresh) @ deactivations evs" for evs
    by (simp_all add: e0)
  from r [of "[Activate_event (Some 7), Deactivate_event (Some 7)]"] 2 d'
  have 3: "emitted (activateEvents
        (foldl (\<lambda>t e. EOC_handle e t) ex_proxy_fresh
           [Activate_event (Some 7), Deactivate_event (Some 7)])) = [Some 7]
   \<and> emitted (deactivateEvents
        (foldl (\<lambda>t e. EOC_handle e t) ex_proxy_fresh
           [Activate_event (Some 7), Deactivate_event (Some 7)])) = [Some 7]"
    by (simp add: e0)
  from 1 2 3 show ?thesis
    by (simp add: ex_activate ex_activate_proxy e0 ex_active_fields ex_cref_def
        ex_proxy_instances)
qed

subsection \<open>The view handle and the route over runs of operations\<close>




















end
